theory Spec2Isabelle
  imports Complex_Main "HOL-Library.Log_Nat"
begin

section \<open>Documents\<close>

text \<open>
  The Mongoose schemas of \<^verbatim>\<open>models/User.js\<close> (User and Payment), \<^verbatim>\<open>models/Course.js\<close>,
  \<^verbatim>\<open>models/Test.js\<close> and \<^verbatim>\<open>models/TestResult.js\<close>, with the fields the payment and test
  routes read or write. An ObjectId is a natural number, a Date is its millisecond
  timestamp. Marks are JavaScript Numbers that the validators keep integral and at least
  1, so they are naturals; \<open>passingMarks\<close> has no lower bound in the schema and is an integer.
\<close>

type_synonym oid = nat
type_synonym date = int

text \<open>
  A text that a request brings or a document stores is the list of its Unicode code
  points; \<open>js\<close> writes an ASCII text as one. In JavaScript it is a string of UTF-16 code
  units, two for a code point above U+FFFF, and MongoDB stores it as UTF-8. The messages
  of the answers are fixed texts and stay Isabelle strings.
\<close>

type_synonym jstring = "nat list"

definition js :: "string \<Rightarrow> jstring" where
  "js s = map of_char s"

datatype role = Superadmin | Admin | Student

datatype payment_status = Pending | Completed | Failed | Refunded | Cancelled

datatype payment_method = Online | Offline

datatype enrollment_status = EnrPending | EnrCompleted | EnrFailed

record enrollment =
  enr_course :: oid
  enr_enrolledAt :: date
  enr_paymentStatus :: enrollment_status
  enr_paymentMethod :: payment_method

record user =
  user_id :: oid
  user_role :: role
  enrolledCourses :: "enrollment list"

record course =
  course_id :: oid
  instructor :: oid
  price :: nat
  course_isPublished :: bool
  enrollmentCount :: nat

record offline_details =
  bankName :: jstring
  transactionId :: jstring
  transactionDate :: date
  screenshot :: string
  od_notes :: "jstring option"

record payment =
  payment_id :: oid
  pay_student :: oid
  pay_course :: oid
  amount :: nat
  paymentMethod :: payment_method
  status :: payment_status
  razorpayOrderId :: "string option"
  razorpayPaymentId :: "string option"
  razorpaySignature :: "string option"
  offlineDetails :: "offline_details option"
  approvedBy :: "oid option"
  approvedAt :: "date option"
  rejectedBy :: "oid option"
  rejectedAt :: "date option"
  rejectionReason :: "jstring option"

datatype difficulty = Easy | Medium | Hard

record option_doc =
  opt_id :: oid
  opt_text :: jstring
  isCorrect :: bool

record question =
  q_id :: oid
  q_question :: jstring
  q_options :: "option_doc list"
  explanation :: jstring
  q_difficulty :: difficulty
  marks :: nat

record test =
  test_id :: oid
  title :: jstring
  description :: "jstring option"
  test_course :: oid
  createdBy :: oid
  subject :: jstring
  topic :: "jstring option"
  questions :: "question list"
  duration :: nat
  totalMarks :: nat
  passingMarks :: int
  isPublished :: bool
  startDate :: "date option"
  endDate :: "date option"
  maxAttempts :: nat
  shuffleQuestions :: bool
  showResults :: bool
  showCorrectAnswers :: bool
  isAIGenerated :: bool
  aiPrompt :: "jstring option"

text \<open>
  A JavaScript Number as the grading code can produce it: \<open>Dbl m e\<close> is the finite
  double \<open>m * 2 ^ e\<close>, the other two are the results of a division by zero. \<open>Num k\<close> is
  the integer \<open>k\<close>.
\<close>

datatype jsnum = Dbl nat int | Infinity | NaN

abbreviation Num :: "nat \<Rightarrow> jsnum" where
  "Num k \<equiv> Dbl k 0"

record graded_answer =
  ga_questionId :: oid
  ga_selectedOption :: oid
  ga_isCorrect :: bool
  ga_marksObtained :: nat
  ga_timeTaken :: nat

record test_result =
  tr_id :: oid
  tr_test :: oid
  tr_student :: oid
  tr_course :: oid
  tr_answers :: "graded_answer list"
  tr_totalMarks :: nat
  tr_marksObtained :: nat
  tr_percentage :: jsnum
  tr_isPassed :: bool
  tr_timeTaken :: nat
  tr_startedAt :: date
  tr_submittedAt :: date
  attemptNumber :: nat

section \<open>The database\<close>

text \<open>
  A collection is the list of its documents in insertion order. \<open>findOne\<close> returns the
  first match, \<open>save\<close> replaces the document with the same \<open>_id\<close>, \<open>create\<close> appends a
  document under a fresh \<open>_id\<close>.
\<close>

record db =
  users :: "user list"
  courses :: "course list"
  payments :: "payment list"
  tests :: "test list"
  testResults :: "test_result list"

text \<open>
  What a handler answers when it does not succeed: \<open>Status c m\<close> is
  \<^verbatim>\<open>res.status(c).json({ success: false, message: m })\<close>, \<open>Next e\<close> is an exception that
  the handler's \<^verbatim>\<open>catch\<close> hands to \<^verbatim>\<open>next(error)\<close>.
\<close>

datatype failure = Status nat string | Next string

definition fresh_id :: "oid list \<Rightarrow> oid" where
  "fresh_id ids = Suc (fold max ids 0)"

definition findById_user :: "oid \<Rightarrow> db \<Rightarrow> user option" where
  "findById_user i d = find (\<lambda>u. user_id u = i) (users d)"

definition findById_course :: "oid \<Rightarrow> db \<Rightarrow> course option" where
  "findById_course i d = find (\<lambda>c. course_id c = i) (courses d)"

definition findById_payment :: "oid \<Rightarrow> db \<Rightarrow> payment option" where
  "findById_payment i d = find (\<lambda>p. payment_id p = i) (payments d)"

definition findById_test :: "oid \<Rightarrow> db \<Rightarrow> test option" where
  "findById_test i d = find (\<lambda>t. test_id t = i) (tests d)"

definition save_user :: "user \<Rightarrow> db \<Rightarrow> db" where
  "save_user u d = d\<lparr>users := map (\<lambda>x. if user_id x = user_id u then u else x) (users d)\<rparr>"

definition save_payment :: "payment \<Rightarrow> db \<Rightarrow> db" where
  "save_payment p d =
     d\<lparr>payments := map (\<lambda>x. if payment_id x = payment_id p then p else x) (payments d)\<rparr>"

text \<open>\<^verbatim>\<open>Course.findByIdAndUpdate(id, { $inc: { enrollmentCount: 1 } })\<close>\<close>

definition inc_enrollmentCount :: "oid \<Rightarrow> db \<Rightarrow> db" where
  "inc_enrollmentCount i d =
     d\<lparr>courses := map (\<lambda>c. if course_id c = i then c\<lparr>enrollmentCount := enrollmentCount c + 1\<rparr>
                              else c) (courses d)\<rparr>"

text \<open>\<^verbatim>\<open>userSchema.methods.hasPurchasedCourse\<close>\<close>

definition hasPurchasedCourse :: "user \<Rightarrow> oid \<Rightarrow> bool" where
  "hasPurchasedCourse u courseId =
     list_ex (\<lambda>e. enr_course e = courseId \<and> enr_paymentStatus e = EnrCompleted) (enrolledCourses u)"

section \<open>Payments: \<^verbatim>\<open>routes/payments.js\<close>\<close>

text \<open>
  \<^verbatim>\<open>utils/razorpay.js\<close>, \<open>verifyPaymentSignature\<close>: the HMAC-SHA256 of
  \<^verbatim>\<open>orderId + '|' + paymentId\<close> under the gateway secret, in hexadecimal, is compared with
  the signature. The keyed hash is a parameter.
\<close>

definition verifyPaymentSignature :: "(string \<Rightarrow> string) \<Rightarrow> string \<Rightarrow> string \<Rightarrow> string \<Rightarrow> bool" where
  "verifyPaymentSignature hmac orderId paymentId signature =
     (hmac (orderId @ ''|'' @ paymentId) = signature)"

text \<open>A new Payment with the schema's defaults, as \<^verbatim>\<open>Payment.create\<close> stores it.\<close>

definition new_payment :: "oid \<Rightarrow> oid \<Rightarrow> oid \<Rightarrow> nat \<Rightarrow> payment_method \<Rightarrow> payment" where
  "new_payment i studentId courseId amt m =
     \<lparr>payment_id = i, pay_student = studentId, pay_course = courseId, amount = amt,
      paymentMethod = m, status = Pending, razorpayOrderId = None, razorpayPaymentId = None,
      razorpaySignature = None, offlineDetails = None, approvedBy = None, approvedAt = None,
      rejectedBy = None, rejectedAt = None, rejectionReason = None\<rparr>"

definition create_payment :: "payment \<Rightarrow> db \<Rightarrow> db" where
  "create_payment p d = d\<lparr>payments := payments d @ [p]\<rparr>"

definition findPending :: "oid \<Rightarrow> oid \<Rightarrow> db \<Rightarrow> payment option" where
  "findPending studentId courseId d =
     find (\<lambda>p. pay_student p = studentId \<and> pay_course p = courseId \<and> status p = Pending)
       (payments d)"

subsection \<open>POST /create-order and POST /offline\<close>

text \<open>
  Both handlers run the same checks on what they read from the database (lines 32--61 and
  226--255) and create the Payment afterwards, in a later database operation (in
  create-order the gateway call lies between them). The checks and the creation are two
  functions, so that other requests can run between them. \<open>req_user\<close> is the user document
  that \<open>protect\<close> loaded before the handler started.
\<close>

definition purchase_checks :: "user \<Rightarrow> oid \<Rightarrow> db \<Rightarrow> failure + course" where
  "purchase_checks req_user courseId d =
     (case findById_course courseId d of
        None \<Rightarrow> Inl (Status 404 ''Course not found or not available'')
      | Some c \<Rightarrow>
          if \<not> course_isPublished c then Inl (Status 404 ''Course not found or not available'')
          else if hasPurchasedCourse req_user courseId
            then Inl (Status 400 ''You have already purchased this course'')
          else if findPending (user_id req_user) courseId d \<noteq> None
            then Inl (Status 400 ''You already have a pending payment for this course'')
          else Inr c)"

text \<open>\<open>requireStudent\<close> and \<open>requireAdmin\<close> of \<^verbatim>\<open>middleware/auth.js\<close>.\<close>

definition requireStudent :: "user \<Rightarrow> failure option" where
  "requireStudent req_user =
     (if user_role req_user \<noteq> Student then Some (Status 403 ''Student access required'')
      else None)"

definition requireAdmin :: "user \<Rightarrow> failure option" where
  "requireAdmin req_user =
     (if user_role req_user \<noteq> Admin \<and> user_role req_user \<noteq> Superadmin
        then Some (Status 403 ''Admin access required'')
      else None)"

text \<open>
  The \<open>trim\<close> sanitizer of the validators, and the \<open>trim\<close> of the schemas: the leading and
  trailing white space goes. Both take the white space of JavaScript (the class \<^verbatim>\<open>\s\<close> of
  regular expressions, which is also what \<^verbatim>\<open>String.prototype.trim\<close> strips): tab, line feed,
  vertical tab, form feed, carriage return, space, U+00A0, U+1680, U+2000 to U+200A,
  U+2028, U+2029, U+202F, U+205F, U+3000 and U+FEFF.
\<close>

definition is_space :: "nat \<Rightarrow> bool" where
  "is_space c =
     (c \<in> set [0x09, 0x0A, 0x0B, 0x0C, 0x0D, 0x20, 0xA0, 0x1680, 0x2028, 0x2029, 0x202F,
                0x205F, 0x3000, 0xFEFF]
      \<or> (0x2000 \<le> c \<and> c \<le> 0x200A))"

definition trim :: "jstring \<Rightarrow> jstring" where
  "trim s = rev (dropWhile is_space (rev (dropWhile is_space s)))"

text \<open>
  The \<open>length\<close> of the JavaScript string, which the \<open>maxlength\<close> of a schema compares with
  its bound, and the length that the validator \<open>isLength\<close> compares with its bounds: there
  a surrogate pair counts once and the variation selectors U+FE0E and U+FE0F do not count.
\<close>

definition utf16_length :: "jstring \<Rightarrow> nat" where
  "utf16_length s = length s + length (filter (\<lambda>c. 0xFFFF < c) s)"

definition isLength_count :: "jstring \<Rightarrow> nat" where
  "isLength_count s = length s - length (filter (\<lambda>c. c = 0xFE0F \<or> c = 0xFE0E) s)"

definition online_checks :: "user \<Rightarrow> oid \<Rightarrow> db \<Rightarrow> failure + course" where
  "online_checks req_user courseId d =
     (case requireStudent req_user of
        Some e \<Rightarrow> Inl e
      | None \<Rightarrow> purchase_checks req_user courseId d)"

text \<open>\<open>file\<close> is the uploaded screenshot's path, when there is one.\<close>

definition offline_checks ::
  "user \<Rightarrow> oid \<Rightarrow> jstring \<Rightarrow> jstring \<Rightarrow> jstring option \<Rightarrow> string option \<Rightarrow> db
     \<Rightarrow> failure + course \<times> string"
where
  "offline_checks req_user courseId bank txn nts file d =
     (case requireStudent req_user of
        Some e \<Rightarrow> Inl e
      | None \<Rightarrow>
          if trim bank = [] \<or> trim txn = []
             \<or> (case nts of None \<Rightarrow> False | Some n \<Rightarrow> 500 < isLength_count (trim n))
            then Inl (Status 400 ''Validation failed'')
          else case purchase_checks req_user courseId d of
            Inl e \<Rightarrow> Inl e
          | Inr c \<Rightarrow>
              (case file of
                 None \<Rightarrow> Inl (Status 400 ''Payment screenshot is required'')
               | Some path \<Rightarrow> Inr (c, path)))"

text \<open>The gateway's answer to \<open>createOrder\<close> is an input: an order id, or nothing when it throws.\<close>

definition create_online :: "user \<Rightarrow> course \<Rightarrow> string option \<Rightarrow> db \<Rightarrow> (failure + oid) \<times> db" where
  "create_online req_user c order d =
     (case order of
        None \<Rightarrow> (Inl (Next ''Razorpay order creation error''), d)
      | Some orderId \<Rightarrow>
          let i = fresh_id (map payment_id (payments d));
              p = (new_payment i (user_id req_user) (course_id c) (price c) Online)
                    \<lparr>razorpayOrderId := Some orderId\<rparr>
          in (Inr i, create_payment p d))"

definition create_order :: "user \<Rightarrow> oid \<Rightarrow> string option \<Rightarrow> db \<Rightarrow> (failure + oid) \<times> db" where
  "create_order req_user courseId order d =
     (case online_checks req_user courseId d of
        Inl e \<Rightarrow> (Inl e, d)
      | Inr c \<Rightarrow> create_online req_user c order d)"

definition create_offline ::
  "user \<Rightarrow> course \<Rightarrow> jstring \<Rightarrow> jstring \<Rightarrow> date \<Rightarrow> jstring option \<Rightarrow> string \<Rightarrow> db
     \<Rightarrow> (failure + oid) \<times> db"
where
  "create_offline req_user c bank txn txnDate nts path d =
     (let i = fresh_id (map payment_id (payments d));
          p = (new_payment i (user_id req_user) (course_id c) (price c) Offline)
                \<lparr>offlineDetails := Some \<lparr>bankName = trim bank, transactionId = trim txn,
                   transactionDate = txnDate, screenshot = path,
                   od_notes = map_option trim nts\<rparr>\<rparr>
      in (Inr i, create_payment p d))"

definition request_offline ::
  "user \<Rightarrow> oid \<Rightarrow> jstring \<Rightarrow> jstring \<Rightarrow> date \<Rightarrow> jstring option \<Rightarrow> string option \<Rightarrow> db
     \<Rightarrow> (failure + oid) \<times> db"
where
  "request_offline req_user courseId bank txn txnDate nts file d =
     (case offline_checks req_user courseId bank txn nts file d of
        Inl e \<Rightarrow> (Inl e, d)
      | Inr (c, path) \<Rightarrow> create_offline req_user c bank txn txnDate nts path d)"

subsection \<open>POST /verify\<close>

text \<open>
  Lines 163--175: the student's user document is read again, an enrollment is pushed and
  the course's counter is incremented. \<open>c\<close> is the course that \<open>populate\<close> attached to the
  payment; dereferencing a missing user or course throws.
\<close>

definition enroll_online :: "date \<Rightarrow> oid \<Rightarrow> course option \<Rightarrow> db \<Rightarrow> failure option \<times> db" where
  "enroll_online now uid c d =
     (case findById_user uid d of
        None \<Rightarrow> (Some (Next ''TypeError''), d)
      | Some u \<Rightarrow>
          (case c of
             None \<Rightarrow> (Some (Next ''TypeError''), d)
           | Some crs \<Rightarrow>
               let e = \<lparr>enr_course = course_id crs, enr_enrolledAt = now,
                        enr_paymentStatus = EnrCompleted, enr_paymentMethod = Online\<rparr>;
                   d1 = save_user (u\<lparr>enrolledCourses := enrolledCourses u @ [e]\<rparr>) d
               in (None, inc_enrollmentCount (course_id crs) d1)))"

text \<open>Lines 126--137: the lookup, restricted to pending payments of the caller.\<close>

definition verify_lookup :: "user \<Rightarrow> string \<Rightarrow> string \<Rightarrow> string \<Rightarrow> db \<Rightarrow> failure + payment \<times> course option" where
  "verify_lookup req_user orderId paymentId signature d =
     (case requireStudent req_user of
        Some e \<Rightarrow> Inl e
      | None \<Rightarrow>
          if orderId = [] \<or> paymentId = [] \<or> signature = [] then Inl (Status 400 ''Validation failed'')
          else case find (\<lambda>p. razorpayOrderId p = Some orderId \<and> pay_student p = user_id req_user
                               \<and> status p = Pending) (payments d) of
            None \<Rightarrow> Inl (Status 404 ''Payment record not found'')
          | Some p \<Rightarrow> Inr (p, findById_course (pay_course p) d))"

text \<open>Lines 139--197: the signature check, the payment's transition and the enrollment.\<close>

definition verify_settle ::
  "(string \<Rightarrow> string) \<Rightarrow> date \<Rightarrow> user \<Rightarrow> string \<Rightarrow> string \<Rightarrow> string \<Rightarrow> payment \<times> course option \<Rightarrow> db
     \<Rightarrow> (failure + oid) \<times> db"
where
  "verify_settle hmac now req_user orderId paymentId signature pc d =
     (let p = fst pc; c = snd pc in
      if \<not> verifyPaymentSignature hmac orderId paymentId signature
        then (Inl (Status 400 ''Invalid payment signature''), save_payment (p\<lparr>status := Failed\<rparr>) d)
      else
        let d1 = save_payment (p\<lparr>status := Completed, razorpayPaymentId := Some paymentId,
                                  razorpaySignature := Some signature\<rparr>) d
        in case enroll_online now (user_id req_user) c d1 of
             (Some e, d2) \<Rightarrow> (Inl e, d2)
           | (None, d2) \<Rightarrow> (Inr (payment_id p), d2))"

definition verify ::
  "(string \<Rightarrow> string) \<Rightarrow> date \<Rightarrow> user \<Rightarrow> string \<Rightarrow> string \<Rightarrow> string \<Rightarrow> db \<Rightarrow> (failure + oid) \<times> db"
where
  "verify hmac now req_user orderId paymentId signature d =
     (case verify_lookup req_user orderId paymentId signature d of
        Inl e \<Rightarrow> (Inl e, d)
      | Inr pc \<Rightarrow> verify_settle hmac now req_user orderId paymentId signature pc d)"

subsection \<open>PUT /:id/approve and PUT /:id/reject\<close>

text \<open>\<^verbatim>\<open>paymentSchema.methods.approve\<close> and \<^verbatim>\<open>paymentSchema.methods.reject\<close>, before the save.\<close>

definition payment_approve :: "date \<Rightarrow> oid \<Rightarrow> payment \<Rightarrow> payment" where
  "payment_approve now adminId p =
     p\<lparr>status := Completed, approvedBy := Some adminId, approvedAt := Some now\<rparr>"

definition payment_reject :: "date \<Rightarrow> oid \<Rightarrow> jstring \<Rightarrow> payment \<Rightarrow> payment" where
  "payment_reject now adminId reason p =
     p\<lparr>status := Failed, rejectedBy := Some adminId, rejectedAt := Some now,
       rejectionReason := Some reason\<rparr>"

fun update_first :: "('a \<Rightarrow> bool) \<Rightarrow> ('a \<Rightarrow> 'a) \<Rightarrow> 'a list \<Rightarrow> 'a list" where
  "update_first P f [] = []"
| "update_first P f (x # xs) = (if P x then f x # xs else x # update_first P f xs)"

text \<open>
  Lines 442--466: the enrollment after an approval. An enrollment of the course that
  exists already is updated in place, and the counter is left alone.
\<close>

definition enroll_offline :: "date \<Rightarrow> oid \<Rightarrow> course option \<Rightarrow> db \<Rightarrow> failure option \<times> db" where
  "enroll_offline now uid c d =
     (case findById_user uid d of
        None \<Rightarrow> (Some (Next ''TypeError''), d)
      | Some u \<Rightarrow>
          (case c of
             None \<Rightarrow> (Some (Next ''TypeError''), d)
           | Some crs \<Rightarrow>
               (case find (\<lambda>e. enr_course e = course_id crs) (enrolledCourses u) of
                  None \<Rightarrow>
                    let e = \<lparr>enr_course = course_id crs, enr_enrolledAt = now,
                             enr_paymentStatus = EnrCompleted, enr_paymentMethod = Offline\<rparr>;
                        d1 = save_user (u\<lparr>enrolledCourses := enrolledCourses u @ [e]\<rparr>) d
                    in (None, inc_enrollmentCount (course_id crs) d1)
                | Some existing \<Rightarrow>
                    (None, save_user (u\<lparr>enrolledCourses :=
                       update_first (\<lambda>e. enr_course e = course_id crs)
                         (\<lambda>e. e\<lparr>enr_paymentStatus := EnrCompleted\<rparr>) (enrolledCourses u)\<rparr>) d))))"

text \<open>
  Lines 406--437 and 509--540: the guards that approve and reject share. The payment's
  course is populated; an admin who is not superadmin must be its instructor.
\<close>

definition manual_guards :: "string \<Rightarrow> string \<Rightarrow> user \<Rightarrow> oid \<Rightarrow> db \<Rightarrow> failure + payment" where
  "manual_guards verb verbed req_user pid d =
     (case findById_payment pid d of
        None \<Rightarrow> Inl (Status 404 ''Payment not found'')
      | Some p \<Rightarrow>
          if user_role req_user \<noteq> Superadmin \<and> findById_course (pay_course p) d = None
            then Inl (Next ''TypeError'')
          else if user_role req_user \<noteq> Superadmin
                  \<and> map_option instructor (findById_course (pay_course p) d) \<noteq> Some (user_id req_user)
            then Inl (Status 403 (''Not authorized to '' @ verb @ '' this payment''))
          else if paymentMethod p \<noteq> Offline
            then Inl (Status 400 (''Only offline payments can be '' @ verbed @ '' manually''))
          else if status p \<noteq> Pending
            then Inl (Status 400 ''Payment is not in pending status'')
          else Inr p)"

definition approve :: "date \<Rightarrow> user \<Rightarrow> oid \<Rightarrow> db \<Rightarrow> (failure + payment) \<times> db" where
  "approve now req_user pid d =
     (case requireAdmin req_user of
        Some e \<Rightarrow> (Inl e, d)
      | None \<Rightarrow>
          (case manual_guards ''approve'' ''approved'' req_user pid d of
             Inl e \<Rightarrow> (Inl e, d)
           | Inr p \<Rightarrow>
               let p' = payment_approve now (user_id req_user) p;
                   d1 = save_payment p' d
               in case findById_user (pay_student p) d of
                    None \<Rightarrow> (Inl (Next ''TypeError''), d1)
                  | Some s \<Rightarrow>
                      (case enroll_offline now (user_id s) (findById_course (pay_course p) d) d1 of
                         (Some e, d2) \<Rightarrow> (Inl e, d2)
                       | (None, d2) \<Rightarrow> (Inr p', d2))))"

definition reject :: "date \<Rightarrow> user \<Rightarrow> oid \<Rightarrow> jstring \<Rightarrow> db \<Rightarrow> (failure + payment) \<times> db" where
  "reject now req_user pid reason d =
     (case requireAdmin req_user of
        Some e \<Rightarrow> (Inl e, d)
      | None \<Rightarrow>
          if trim reason = [] then (Inl (Status 400 ''Validation failed''), d)
          else
            (case manual_guards ''reject'' ''rejected'' req_user pid d of
               Inl e \<Rightarrow> (Inl e, d)
             | Inr p \<Rightarrow>
                 let p' = payment_reject now (user_id req_user) (trim reason) p
                 in (Inr p', save_payment p' d)))"

section \<open>JavaScript arithmetic of the percentage\<close>

text \<open>
  \<^verbatim>\<open>Math.round((marksObtained / totalMarks) * 100)\<close> is computed on IEEE 754 doubles: the
  quotient is rounded to the nearest double (ties to even), so is its product with 100, and
  \<open>Math.round\<close> takes the nearest integer (ties upwards). \<open>nearest_double n d\<close> rounds the
  positive fraction \<open>n / d\<close> to 53 significant bits; this is the double for every value in
  the normal range, where the quotients and percentages of marks below \<open>2 ^ 53\<close> lie.
  Dividing by zero gives \<open>NaN\<close> for \<open>0 / 0\<close> and \<open>Infinity\<close> otherwise (marks are never
  negative).
\<close>

text \<open>\<open>n / d\<close> rounded to the nearest natural, ties to the even one.\<close>

definition round_half_even :: "nat \<Rightarrow> nat \<Rightarrow> nat" where
  "round_half_even n d =
     (let q = n div d; r = n mod d
      in if 2 * r < d then q else if d < 2 * r then q + 1 else if even q then q else q + 1)"

text \<open>
  \<open>floorlog 2 n\<close> is the number of binary digits of \<open>n\<close>. With \<open>e0\<close> the difference of the
  digits of \<open>n\<close> and \<open>d\<close>, the fraction lies between \<open>2 ^ (e0 - 1)\<close> and
  \<open>2 ^ (e0 + 1)\<close>; \<open>ex\<close> is its binary exponent, and the mantissa is the fraction in units
  of \<open>2 ^ (ex - 52)\<close>.
\<close>

definition nearest_double :: "nat \<Rightarrow> nat \<Rightarrow> jsnum" where
  "nearest_double n d =
     (let e0 = int (floorlog 2 n) - int (floorlog 2 d);
          ex = (if d * 2 ^ nat e0 \<le> n * 2 ^ nat (- e0) then e0 else e0 - 1);
          e = ex - 52
      in Dbl (round_half_even (n * 2 ^ nat (- e)) (d * 2 ^ nat e)) e)"

definition js_div :: "nat \<Rightarrow> nat \<Rightarrow> jsnum" where
  "js_div a b =
     (if b = 0 then (if a = 0 then NaN else Infinity)
      else if a = 0 then Num 0
      else nearest_double a b)"

fun js_times :: "jsnum \<Rightarrow> nat \<Rightarrow> jsnum" where
  "js_times (Dbl m e) k =
     (if m * k = 0 then Num 0 else nearest_double (m * k * 2 ^ nat e) (2 ^ nat (- e)))"
| "js_times Infinity k = (if k = 0 then NaN else Infinity)"
| "js_times NaN k = NaN"

text \<open>\<open>Math.round x\<close> is \<open>floor (x + 1 / 2)\<close>.\<close>

fun Math_round :: "jsnum \<Rightarrow> jsnum" where
  "Math_round (Dbl m e) = Num ((2 * m * 2 ^ nat e + 2 ^ nat (- e)) div (2 * 2 ^ nat (- e)))"
| "Math_round Infinity = Infinity"
| "Math_round NaN = NaN"

text \<open>Line 509 of \<^verbatim>\<open>routes/tests.js\<close>: the percentage as the route computes it.\<close>

definition route_percentage :: "nat \<Rightarrow> nat \<Rightarrow> jsnum" where
  "route_percentage marksObtained tot = Math_round (js_times (js_div marksObtained tot) 100)"

text \<open>\<^verbatim>\<open>testResultSchema.pre('save')\<close>: the percentage as the document stores it.\<close>

definition presave_percentage :: "nat \<Rightarrow> nat \<Rightarrow> jsnum" where
  "presave_percentage marksObtained tot =
     (if 0 < tot then Math_round (js_times (js_div marksObtained tot) 100) else Num 0)"

text \<open>
  \<^verbatim>\<open>Math.ceil(n * 0.6)\<close>, the default of \<open>passingMarks\<close>: the literal is the double nearest to
  \<open>3 / 5\<close>, the product is rounded to a double, and the smallest integer not below it is
  taken.
\<close>

fun Math_ceil :: "jsnum \<Rightarrow> jsnum" where
  "Math_ceil (Dbl m e) = Num ((m * 2 ^ nat e + 2 ^ nat (- e) - 1) div 2 ^ nat (- e))"
| "Math_ceil Infinity = Infinity"
| "Math_ceil NaN = NaN"

definition default_passingMarks :: "nat \<Rightarrow> int" where
  "default_passingMarks n =
     (case Math_ceil (js_times (nearest_double 3 5) n) of Dbl m e \<Rightarrow> int m | _ \<Rightarrow> 0)"

section \<open>Tests: \<^verbatim>\<open>models/Test.js\<close> and \<^verbatim>\<open>models/TestResult.js\<close>\<close>

text \<open>
  The setters and validators of \<^verbatim>\<open>questionSchema\<close> and \<^verbatim>\<open>testSchema\<close>. Mongoose trims the
  question text, the option texts and the explanation when it casts a question, for a new
  document and for an update alike; the title, subject and topic of a test are trimmed in
  the same way where a handler builds the document. The validators then want a question
  text, a text for every option and marks of at least 1, and for the test a title of
  length at most 200, a description of length at most 1000, a subject, a duration and
  \<open>maxAttempts\<close> of at least 1.
\<close>

definition question_cast :: "question \<Rightarrow> question" where
  "question_cast q =
     q\<lparr>q_question := trim (q_question q), explanation := trim (explanation q),
       q_options := map (\<lambda>opt. opt\<lparr>opt_text := trim (opt_text opt)\<rparr>) (q_options q)\<rparr>"

definition question_valid :: "question \<Rightarrow> bool" where
  "question_valid q =
     (q_question q \<noteq> [] \<and> list_all (\<lambda>opt. opt_text opt \<noteq> []) (q_options q) \<and> 1 \<le> marks q)"

definition Test_validate :: "test \<Rightarrow> bool" where
  "Test_validate t =
     (title t \<noteq> [] \<and> utf16_length (title t) \<le> 200
      \<and> (case description t of None \<Rightarrow> True | Some s \<Rightarrow> utf16_length s \<le> 1000)
      \<and> subject t \<noteq> []
      \<and> list_all question_valid (questions t)
      \<and> 1 \<le> duration t \<and> 1 \<le> maxAttempts t)"

text \<open>
  \<^verbatim>\<open>testSchema.pre('save')\<close>: the total is recomputed from the questions when there are
  any. \<open>Test_create\<close> is \<^verbatim>\<open>Test.create\<close>, which saves the new document and so runs the hook.
  (The second hook stamps \<open>publishedAt\<close> when a test is saved as published; no handler saves
  one so.)
\<close>

definition test_presave :: "test \<Rightarrow> test" where
  "test_presave t =
     (if 0 < length (questions t)
        then t\<lparr>totalMarks := foldl (\<lambda>tot q. tot + marks q) 0 (questions t)\<rparr>
      else t)"

definition Test_create :: "test \<Rightarrow> db \<Rightarrow> test \<times> db" where
  "Test_create t d =
     (let t' = (test_presave t)\<lparr>test_id := fresh_id (map test_id (tests d))\<rparr>
      in (t', d\<lparr>tests := tests d @ [t']\<rparr>))"

text \<open>\<^verbatim>\<open>testSchema.methods.isActive\<close>; \<open>now\<close> is the clock reading \<^verbatim>\<open>new Date()\<close>.\<close>

definition isActive :: "date \<Rightarrow> test \<Rightarrow> bool" where
  "isActive now t =
     (if \<not> isPublished t then False
      else if (case startDate t of None \<Rightarrow> False | Some s \<Rightarrow> now < s) then False
      else if (case endDate t of None \<Rightarrow> False | Some e \<Rightarrow> e < now) then False
      else True)"

text \<open>\<^verbatim>\<open>testSchema.methods.getQuestionsForStudent\<close>\<close>

record option_view =
  ov_id :: oid
  ov_text :: jstring

record question_view =
  qv_id :: oid
  qv_question :: jstring
  qv_options :: "option_view list"
  qv_difficulty :: difficulty
  qv_marks :: nat

definition getQuestionsForStudent :: "test \<Rightarrow> question_view list" where
  "getQuestionsForStudent t =
     map (\<lambda>q. \<lparr>qv_id = q_id q, qv_question = q_question q,
                qv_options = map (\<lambda>opt. \<lparr>ov_id = opt_id opt, ov_text = opt_text opt\<rparr>) (q_options q),
                qv_difficulty = q_difficulty q, qv_marks = marks q\<rparr>)
       (questions t)"

text \<open>\<^verbatim>\<open>testResultSchema.statics.getAttemptCount\<close>\<close>

definition getAttemptCount :: "oid \<Rightarrow> oid \<Rightarrow> db \<Rightarrow> nat" where
  "getAttemptCount testId studentId d =
     length (filter (\<lambda>r. tr_test r = testId \<and> tr_student r = studentId) (testResults d))"

text \<open>
  \<^verbatim>\<open>TestResult.create\<close>. Mongoose casts the fields first and refuses \<open>NaN\<close> for a Number
  path; the \<^verbatim>\<open>pre('save')\<close> hook then recomputes the percentage; the insert fails on the
  unique index over (test, student, attemptNumber) when that key is taken.
\<close>

definition TestResult_create :: "test_result \<Rightarrow> db \<Rightarrow> (failure + test_result) \<times> db" where
  "TestResult_create r d =
     (if tr_percentage r = NaN then (Inl (Next ''ValidationError''), d)
      else if list_ex (\<lambda>x. tr_test x = tr_test r \<and> tr_student x = tr_student r
                             \<and> attemptNumber x = attemptNumber r) (testResults d)
        then (Inl (Next ''E11000 duplicate key error''), d)
      else
        let r' = r\<lparr>tr_id := fresh_id (map tr_id (testResults d)),
                    tr_percentage := presave_percentage (tr_marksObtained r) (tr_totalMarks r)\<rparr>
        in (Inr r', d\<lparr>testResults := testResults d @ [r']\<rparr>))"

section \<open>Tests: \<^verbatim>\<open>routes/tests.js\<close>\<close>

subsection \<open>The questions of a request\<close>

text \<open>
  A question as the body of POST / brings it, without ids. A text that is absent is the
  empty text, which the validators refuse as they refuse an absent one; an absent
  \<open>isCorrect\<close> is false. Mongoose gives every question and every option of the new document
  an ObjectId of its own: here they are numbered on from the first id that no question or
  option of the database has.
\<close>

record option_body =
  ob_text :: jstring
  ob_isCorrect :: bool

record question_body =
  qb_question :: jstring
  qb_options :: "option_body list"
  qb_explanation :: jstring
  qb_difficulty :: "difficulty option"
  qb_marks :: "nat option"

definition object_ids :: "db \<Rightarrow> oid list" where
  "object_ids d =
     concat (map (\<lambda>t. concat (map (\<lambda>q. q_id q # map opt_id (q_options q)) (questions t)))
               (tests d))"

fun new_options :: "oid \<Rightarrow> option_body list \<Rightarrow> option_doc list" where
  "new_options i [] = []"
| "new_options i (b # bs) =
     \<lparr>opt_id = i, opt_text = trim (ob_text b), isCorrect = ob_isCorrect b\<rparr> # new_options (Suc i) bs"

fun new_questions :: "oid \<Rightarrow> question_body list \<Rightarrow> question list" where
  "new_questions i [] = []"
| "new_questions i (b # bs) =
     \<lparr>q_id = i, q_question = trim (qb_question b),
      q_options = new_options (Suc i) (qb_options b),
      explanation = trim (qb_explanation b),
      q_difficulty = (case qb_difficulty b of None \<Rightarrow> Medium | Some x \<Rightarrow> x),
      marks = (case qb_marks b of None \<Rightarrow> 1 | Some m \<Rightarrow> m)\<rparr>
     # new_questions (Suc i + length (qb_options b)) bs"

text \<open>A number as a template literal renders it.\<close>

fun decimal :: "nat \<Rightarrow> string" where
  "decimal n =
     (if n < 10 then [''0123456789'' ! n]
      else decimal (n div 10) @ [''0123456789'' ! (n mod 10)])"

declare decimal.simps [simp del]

subsection \<open>POST /generate\<close>

text \<open>
  The body: \<open>numQuestions\<close> is the number the field denotes, an absent topic or difficulty is
  \<open>None\<close>. The questions are the placeholders of lines 52--67, one mark each.
\<close>

record generate_body =
  gb_subject :: jstring
  gb_topic :: "jstring option"
  gb_numQuestions :: nat
  gb_difficulty :: "difficulty option"
  gb_courseId :: oid

definition difficulty_name :: "difficulty \<Rightarrow> string" where
  "difficulty_name x = (case x of Easy \<Rightarrow> ''easy'' | Medium \<Rightarrow> ''medium'' | Hard \<Rightarrow> ''hard'')"

definition dummy_question :: "jstring \<Rightarrow> jstring option \<Rightarrow> difficulty \<Rightarrow> nat \<Rightarrow> question_body" where
  "dummy_question subj tpc diff i =
     \<lparr>qb_question = js ''Sample '' @ subj @ js '' question '' @ js (decimal i) @ js '' about ''
                       @ (case tpc of None \<Rightarrow> js ''general concepts''
                                    | Some x \<Rightarrow> if x = [] then js ''general concepts'' else x)
                       @ js ''?'',
      qb_options =
        [\<lparr>ob_text = js ''Option A for question '' @ js (decimal i), ob_isCorrect = (i mod 4 = 1)\<rparr>,
         \<lparr>ob_text = js ''Option B for question '' @ js (decimal i), ob_isCorrect = (i mod 4 = 2)\<rparr>,
         \<lparr>ob_text = js ''Option C for question '' @ js (decimal i), ob_isCorrect = (i mod 4 = 3)\<rparr>,
         \<lparr>ob_text = js ''Option D for question '' @ js (decimal i), ob_isCorrect = (i mod 4 = 0)\<rparr>],
      qb_explanation = js ''This is the explanation for question '' @ js (decimal i),
      qb_difficulty = Some diff, qb_marks = Some 1\<rparr>"

text \<open>\<^verbatim>\<open>topic ? a : ''\<close>: the text \<open>a\<close> when there is a topic that is not empty.\<close>

definition with_topic :: "jstring option \<Rightarrow> (jstring \<Rightarrow> jstring) \<Rightarrow> jstring" where
  "with_topic tpc a = (case tpc of None \<Rightarrow> [] | Some x \<Rightarrow> if x = [] then [] else a x)"

text \<open>Lines 52--82: the document that is handed to \<^verbatim>\<open>Test.create\<close>.\<close>

definition generate_doc :: "user \<Rightarrow> generate_body \<Rightarrow> db \<Rightarrow> test" where
  "generate_doc req_user body d =
     (let subj = trim (gb_subject body);
          tpc = map_option trim (gb_topic body);
          diff = (case gb_difficulty body of None \<Rightarrow> Medium | Some x \<Rightarrow> x);
          numQuestions = gb_numQuestions body;
          dummyQuestions = map (dummy_question subj tpc diff) [1 ..< Suc numQuestions]
      in \<lparr>test_id = 0,
          title = trim (js ''AI Generated Test - '' @ subj
                    @ with_topic tpc (\<lambda>x. js '' ('' @ x @ js '')'')),
          description = Some (js ''Auto-generated test for '' @ subj
                    @ with_topic tpc (\<lambda>x. js '' focusing on '' @ x)),
          test_course = gb_courseId body, createdBy = user_id req_user,
          subject = subj, topic = tpc,
          questions = new_questions (fresh_id (object_ids d)) dummyQuestions,
          duration = max (numQuestions * 2) 30, totalMarks = 0,
          passingMarks = default_passingMarks numQuestions,
          isPublished = False, startDate = None, endDate = None, maxAttempts = 1,
          shuffleQuestions = False, showResults = True, showCorrectAnswers = True,
          isAIGenerated = True,
          aiPrompt = Some (js ''Generate '' @ js (decimal numQuestions) @ js '' ''
                    @ js (difficulty_name diff) @ js '' questions for '' @ subj
                    @ with_topic tpc (\<lambda>x. js '' on '' @ x))\<rparr>)"

definition generate_test :: "user \<Rightarrow> generate_body \<Rightarrow> db \<Rightarrow> (failure + test) \<times> db" where
  "generate_test req_user body d =
     (case requireAdmin req_user of
        Some e \<Rightarrow> (Inl e, d)
      | None \<Rightarrow>
          if trim (gb_subject body) = [] \<or> gb_numQuestions body < 1 \<or> 50 < gb_numQuestions body
            then (Inl (Status 400 ''Validation failed''), d)
          else case findById_course (gb_courseId body) d of
            None \<Rightarrow> (Inl (Status 404 ''Course not found''), d)
          | Some c \<Rightarrow>
              if user_role req_user \<noteq> Superadmin \<and> instructor c \<noteq> user_id req_user
                then (Inl (Status 403 ''Not authorized to create tests for this course''), d)
              else if \<not> Test_validate (generate_doc req_user body d)
                then (Inl (Next ''ValidationError''), d)
              else case Test_create (generate_doc req_user body d) d of (t, d') \<Rightarrow> (Inr t, d'))"

subsection \<open>GET /:id\<close>

text \<open>
  The answer is \<^verbatim>\<open>test.toObject()\<close>; for a student the questions are replaced by
  \<open>getQuestionsForStudent\<close> and the attempt count and \<open>canAttempt\<close> are added.
\<close>

record test_data =
  td_id :: oid
  td_title :: jstring
  td_description :: "jstring option"
  td_course :: oid
  td_createdBy :: oid
  td_subject :: jstring
  td_topic :: "jstring option"
  td_questions :: "question list + question_view list"
  td_duration :: nat
  td_totalMarks :: nat
  td_passingMarks :: int
  td_isPublished :: bool
  td_startDate :: "date option"
  td_endDate :: "date option"
  td_maxAttempts :: nat
  td_shuffleQuestions :: bool
  td_showResults :: bool
  td_showCorrectAnswers :: bool
  td_isAIGenerated :: bool
  td_aiPrompt :: "jstring option"
  td_attemptCount :: "nat option"
  td_canAttempt :: "bool option"

definition toObject :: "test \<Rightarrow> test_data" where
  "toObject t =
     \<lparr>td_id = test_id t, td_title = title t, td_description = description t,
      td_course = test_course t, td_createdBy = createdBy t, td_subject = subject t,
      td_topic = topic t,
      td_questions = Inl (questions t), td_duration = duration t, td_totalMarks = totalMarks t,
      td_passingMarks = passingMarks t, td_isPublished = isPublished t,
      td_startDate = startDate t, td_endDate = endDate t, td_maxAttempts = maxAttempts t,
      td_shuffleQuestions = shuffleQuestions t,
      td_showResults = showResults t, td_showCorrectAnswers = showCorrectAnswers t,
      td_isAIGenerated = isAIGenerated t, td_aiPrompt = aiPrompt t,
      td_attemptCount = None, td_canAttempt = None\<rparr>"

definition get_test :: "date \<Rightarrow> user \<Rightarrow> oid \<Rightarrow> db \<Rightarrow> failure + test_data" where
  "get_test now req_user testId d =
     (case findById_test testId d of
        None \<Rightarrow> Inl (Status 404 ''Test not found'')
      | Some t \<Rightarrow>
          let c = findById_course (test_course t) d in
          if (user_role req_user = Admin \<or> (user_role req_user = Student \<and> isPublished t))
             \<and> c = None
            then Inl (Next ''TypeError'')
          else
            let hasAccess =
              (case user_role req_user of
                 Superadmin \<Rightarrow> True
               | Admin \<Rightarrow> map_option instructor c = Some (user_id req_user)
               | Student \<Rightarrow> isPublished t \<and> hasPurchasedCourse req_user (test_course t))
            in
            if \<not> hasAccess then Inl (Status 403 ''Not authorized to access this test'')
            else if user_role req_user = Student then
              let attemptCount = getAttemptCount (test_id t) (user_id req_user) d
              in Inr ((toObject t)\<lparr>td_questions := Inr (getQuestionsForStudent t),
                        td_attemptCount := Some attemptCount,
                        td_canAttempt := Some (attemptCount < maxAttempts t \<and> isActive now t)\<rparr>)
            else Inr (toObject t))"

subsection \<open>POST /\<close>

text \<open>
  The body: an absent title, subject or duration is the empty text or 0, which the
  validators refuse as they refuse an absent one; the other fields are \<open>None\<close> when absent.
\<close>

record test_body =
  tb_title :: jstring
  tb_description :: "jstring option"
  tb_courseId :: oid
  tb_subject :: jstring
  tb_topic :: "jstring option"
  tb_duration :: nat
  tb_questions :: "question_body list"
  tb_passingMarks :: "int option"
  tb_maxAttempts :: "nat option"
  tb_shuffleQuestions :: "bool option"
  tb_showResults :: "bool option"
  tb_showCorrectAnswers :: "bool option"
  tb_startDate :: "date option"
  tb_endDate :: "date option"

definition create_body_valid :: "test_body \<Rightarrow> bool" where
  "create_body_valid body =
     (5 \<le> isLength_count (trim (tb_title body)) \<and> isLength_count (trim (tb_title body)) \<le> 200
      \<and> (case tb_description body of None \<Rightarrow> True | Some s \<Rightarrow> isLength_count (trim s) \<le> 1000)
      \<and> trim (tb_subject body) \<noteq> []
      \<and> 1 \<le> tb_duration body
      \<and> 1 \<le> length (tb_questions body)
      \<and> list_all (\<lambda>q. trim (qb_question q) \<noteq> []
                       \<and> 2 \<le> length (qb_options q) \<and> length (qb_options q) \<le> 6
                       \<and> (case qb_marks q of None \<Rightarrow> True | Some m \<Rightarrow> 1 \<le> m))
           (tb_questions body))"

text \<open>Lines 262--274: the first question without a correct option ends the request.\<close>

fun correct_answer_loop :: "nat \<Rightarrow> question_body list \<Rightarrow> failure option" where
  "correct_answer_loop i [] = None"
| "correct_answer_loop i (q # qs) =
     (if \<not> list_ex ob_isCorrect (qb_options q)
        then Some (Status 400 (''Question '' @ decimal (i + 1)
                                @ '' must have at least one correct answer''))
      else correct_answer_loop (i + 1) qs)"

text \<open>Lines 243 and 276--292: the document that is handed to \<^verbatim>\<open>Test.create\<close>.\<close>

definition create_doc :: "user \<Rightarrow> test_body \<Rightarrow> db \<Rightarrow> test" where
  "create_doc req_user body d =
     \<lparr>test_id = 0, title = trim (tb_title body),
      description = map_option trim (tb_description body),
      test_course = tb_courseId body, createdBy = user_id req_user,
      subject = trim (tb_subject body), topic = map_option trim (tb_topic body),
      questions = new_questions (fresh_id (object_ids d)) (tb_questions body),
      duration = tb_duration body, totalMarks = 0,
      passingMarks =
        (case tb_passingMarks body of
           None \<Rightarrow> default_passingMarks (length (tb_questions body))
         | Some p \<Rightarrow> if p = 0 then default_passingMarks (length (tb_questions body)) else p),
      isPublished = False, startDate = tb_startDate body, endDate = tb_endDate body,
      maxAttempts = (case tb_maxAttempts body of None \<Rightarrow> 1 | Some n \<Rightarrow> n),
      shuffleQuestions = (case tb_shuffleQuestions body of None \<Rightarrow> False | Some b \<Rightarrow> b),
      showResults = (case tb_showResults body of None \<Rightarrow> True | Some b \<Rightarrow> b),
      showCorrectAnswers = (case tb_showCorrectAnswers body of None \<Rightarrow> True | Some b \<Rightarrow> b),
      isAIGenerated = False, aiPrompt = None\<rparr>"

definition create_test :: "user \<Rightarrow> test_body \<Rightarrow> db \<Rightarrow> (failure + test) \<times> db" where
  "create_test req_user body d =
     (case requireAdmin req_user of
        Some e \<Rightarrow> (Inl e, d)
      | None \<Rightarrow>
          if \<not> create_body_valid body then (Inl (Status 400 ''Validation failed''), d)
          else case findById_course (tb_courseId body) d of
            None \<Rightarrow> (Inl (Status 404 ''Course not found''), d)
          | Some c \<Rightarrow>
              if user_role req_user \<noteq> Superadmin \<and> instructor c \<noteq> user_id req_user
                then (Inl (Status 403 ''Not authorized to create tests for this course''), d)
              else case correct_answer_loop 0 (tb_questions body) of
                Some e \<Rightarrow> (Inl e, d)
              | None \<Rightarrow>
                  if \<not> Test_validate (create_doc req_user body d)
                    then (Inl (Next ''ValidationError''), d)
                  else case Test_create (create_doc req_user body d) d of
                         (t, d') \<Rightarrow> (Inr t, d'))"

subsection \<open>PUT /:id\<close>

text \<open>
  The body of the request: a field that is absent is \<open>None\<close>. The handler copies the
  allowed fields that are present, adds the questions when the test has no attempt yet,
  and writes them with \<^verbatim>\<open>Test.findByIdAndUpdate\<close> and \<^verbatim>\<open>runValidators\<close>; no save hook runs.
  The title and the description are written as the request's sanitizers trimmed them, the
  questions as Mongoose casts them.
\<close>

record test_update =
  upd_title :: "jstring option"
  upd_description :: "jstring option"
  upd_duration :: "nat option"
  upd_passingMarks :: "int option"
  upd_maxAttempts :: "nat option"
  upd_shuffleQuestions :: "bool option"
  upd_showResults :: "bool option"
  upd_showCorrectAnswers :: "bool option"
  upd_startDate :: "date option option"
  upd_endDate :: "date option option"
  upd_isPublished :: "bool option"
  upd_questions :: "question list option"

definition set_field :: "'a option \<Rightarrow> ('a \<Rightarrow> test \<Rightarrow> test) \<Rightarrow> test \<Rightarrow> test" where
  "set_field v f t = (case v of None \<Rightarrow> t | Some x \<Rightarrow> f x t)"

definition apply_allowed :: "test_update \<Rightarrow> test \<Rightarrow> test" where
  "apply_allowed body t =
     (set_field (upd_isPublished body) (\<lambda>x t. t\<lparr>isPublished := x\<rparr>)
     (set_field (upd_endDate body) (\<lambda>x t. t\<lparr>endDate := x\<rparr>)
     (set_field (upd_startDate body) (\<lambda>x t. t\<lparr>startDate := x\<rparr>)
     (set_field (upd_showCorrectAnswers body) (\<lambda>x t. t\<lparr>showCorrectAnswers := x\<rparr>)
     (set_field (upd_showResults body) (\<lambda>x t. t\<lparr>showResults := x\<rparr>)
     (set_field (upd_shuffleQuestions body) (\<lambda>x t. t\<lparr>shuffleQuestions := x\<rparr>)
     (set_field (upd_maxAttempts body) (\<lambda>x t. t\<lparr>maxAttempts := x\<rparr>)
     (set_field (upd_passingMarks body) (\<lambda>x t. t\<lparr>passingMarks := x\<rparr>)
     (set_field (upd_duration body) (\<lambda>x t. t\<lparr>duration := x\<rparr>)
     (set_field (map_option trim (upd_description body)) (\<lambda>x t. t\<lparr>description := Some x\<rparr>)
     (set_field (map_option trim (upd_title body)) (\<lambda>x t. t\<lparr>title := x\<rparr>) t)))))))))))"

text \<open>
  The request validators (title, description, duration), and the schema validators that
  \<^verbatim>\<open>runValidators\<close> runs on the fields of the update.
\<close>

definition update_body_valid :: "test_update \<Rightarrow> bool" where
  "update_body_valid body =
     ((case upd_title body of None \<Rightarrow> True
        | Some s \<Rightarrow> 5 \<le> isLength_count (trim s) \<and> isLength_count (trim s) \<le> 200)
      \<and> (case upd_description body of None \<Rightarrow> True
          | Some s \<Rightarrow> isLength_count (trim s) \<le> 1000)
      \<and> (case upd_duration body of None \<Rightarrow> True | Some n \<Rightarrow> 1 \<le> n))"

definition update_schema_valid :: "test_update \<Rightarrow> bool" where
  "update_schema_valid body =
     ((case upd_title body of None \<Rightarrow> True
        | Some s \<Rightarrow> trim s \<noteq> [] \<and> utf16_length (trim s) \<le> 200)
      \<and> (case upd_description body of None \<Rightarrow> True
          | Some s \<Rightarrow> utf16_length (trim s) \<le> 1000)
      \<and> (case upd_duration body of None \<Rightarrow> True | Some n \<Rightarrow> 1 \<le> n)
      \<and> (case upd_maxAttempts body of None \<Rightarrow> True | Some n \<Rightarrow> 1 \<le> n)
      \<and> (case upd_questions body of None \<Rightarrow> True
          | Some qs \<Rightarrow> list_all (\<lambda>q. question_valid (question_cast q)) qs))"

definition findByIdAndUpdate_test :: "oid \<Rightarrow> (test \<Rightarrow> test) \<Rightarrow> db \<Rightarrow> db" where
  "findByIdAndUpdate_test i f d =
     d\<lparr>tests := update_first (\<lambda>t. test_id t = i) f (tests d)\<rparr>"

definition update_test :: "user \<Rightarrow> oid \<Rightarrow> test_update \<Rightarrow> db \<Rightarrow> (failure + test) \<times> db" where
  "update_test req_user testId body d =
     (case requireAdmin req_user of
        Some e \<Rightarrow> (Inl e, d)
      | None \<Rightarrow>
          if \<not> update_body_valid body then (Inl (Status 400 ''Validation failed''), d)
          else case findById_test testId d of
            None \<Rightarrow> (Inl (Status 404 ''Test not found''), d)
          | Some t \<Rightarrow>
              let c = findById_course (test_course t) d in
              if user_role req_user \<noteq> Superadmin \<and> c = None then (Inl (Next ''TypeError''), d)
              else if user_role req_user \<noteq> Superadmin
                      \<and> map_option instructor c \<noteq> Some (user_id req_user)
                then (Inl (Status 403 ''Not authorized to update this test''), d)
              else
                let attemptCount = length (filter (\<lambda>r. tr_test r = test_id t) (testResults d)) in
                if 0 < attemptCount \<and> upd_questions body \<noteq> None
                  then (Inl (Status 400
                         ''Cannot modify questions after students have attempted the test''), d)
                else if \<not> update_schema_valid body then (Inl (Next ''ValidationError''), d)
                else
                  let updateData = (\<lambda>t. set_field
                        (if attemptCount = 0 then upd_questions body else None)
                        (\<lambda>x t. t\<lparr>questions := map question_cast x\<rparr>) (apply_allowed body t))
                  in (Inr (updateData t), findByIdAndUpdate_test testId updateData d))"

subsection \<open>DELETE /:id\<close>

text \<open>Lines 385--416: the results of the test are deleted first, then the test.\<close>

definition deleteMany_results :: "oid \<Rightarrow> db \<Rightarrow> db" where
  "deleteMany_results testId d =
     d\<lparr>testResults := filter (\<lambda>r. tr_test r \<noteq> testId) (testResults d)\<rparr>"

fun delete_first :: "('a \<Rightarrow> bool) \<Rightarrow> 'a list \<Rightarrow> 'a list" where
  "delete_first P [] = []"
| "delete_first P (x # xs) = (if P x then xs else x # delete_first P xs)"

definition findByIdAndDelete_test :: "oid \<Rightarrow> db \<Rightarrow> db" where
  "findByIdAndDelete_test testId d = d\<lparr>tests := delete_first (\<lambda>t. test_id t = testId) (tests d)\<rparr>"

definition delete_test :: "user \<Rightarrow> oid \<Rightarrow> db \<Rightarrow> failure option \<times> db" where
  "delete_test req_user testId d =
     (case requireAdmin req_user of
        Some e \<Rightarrow> (Some e, d)
      | None \<Rightarrow>
          (case findById_test testId d of
             None \<Rightarrow> (Some (Status 404 ''Test not found''), d)
           | Some t \<Rightarrow>
               let c = findById_course (test_course t) d in
               if user_role req_user \<noteq> Superadmin \<and> c = None then (Some (Next ''TypeError''), d)
               else if user_role req_user \<noteq> Superadmin
                       \<and> map_option instructor c \<noteq> Some (user_id req_user)
                 then (Some (Status 403 ''Not authorized to delete this test''), d)
               else (None, findByIdAndDelete_test testId (deleteMany_results (test_id t) d))))"

subsection \<open>POST /:id/submit\<close>

record answer =
  ans_questionId :: oid
  ans_selectedOption :: oid
  ans_timeTaken :: "nat option"

text \<open>
  Lines 478--506: the grading loop, with its running total and the graded answers so far.
  An unknown question or option ends the request with 400.
\<close>

fun grade_loop ::
  "question list \<Rightarrow> answer list \<Rightarrow> nat \<Rightarrow> graded_answer list \<Rightarrow> failure + nat \<times> graded_answer list"
where
  "grade_loop qs [] marksObtained gradedAnswers = Inr (marksObtained, gradedAnswers)"
| "grade_loop qs (a # as) marksObtained gradedAnswers =
     (case find (\<lambda>q. q_id q = ans_questionId a) qs of
        None \<Rightarrow> Inl (Status 400 ''Invalid question ID'')
      | Some q \<Rightarrow>
          (case find (\<lambda>opt. opt_id opt = ans_selectedOption a) (q_options q) of
             None \<Rightarrow> Inl (Status 400 ''Invalid option ID'')
           | Some selectedOption \<Rightarrow>
               let questionMarks = (if isCorrect selectedOption then marks q else 0)
               in grade_loop qs as (marksObtained + questionMarks)
                    (gradedAnswers @
                      [\<lparr>ga_questionId = ans_questionId a, ga_selectedOption = ans_selectedOption a,
                        ga_isCorrect = isCorrect selectedOption, ga_marksObtained = questionMarks,
                        ga_timeTaken = (case ans_timeTaken a of None \<Rightarrow> 0 | Some s \<Rightarrow> s)\<rparr>])))"

text \<open>
  A submission: the student as \<open>protect\<close> loaded them, the test's id, the body, and the clock.
\<close>

record submission =
  sub_user :: user
  sub_test :: oid
  sub_answers :: "answer list"
  sub_timeTaken :: nat
  sub_now :: date

text \<open>
  The handler waits three times: for the test (line 440), for the attempt count (line
  466) and for \<^verbatim>\<open>TestResult.create\<close> (line 513). Each of the three functions below runs from
  one wait to the next.
\<close>

text \<open>Lines 421--463: validation, the test, access and the activity window.\<close>

definition submit_load :: "submission \<Rightarrow> db \<Rightarrow> failure + test" where
  "submit_load s d =
     (case requireStudent (sub_user s) of
        Some e \<Rightarrow> Inl e
      | None \<Rightarrow>
          if sub_timeTaken s < 1 then Inl (Status 400 ''Validation failed'')
          else case findById_test (sub_test s) d of
            None \<Rightarrow> Inl (Status 404 ''Test not found'')
          | Some t \<Rightarrow>
              if isPublished t \<and> findById_course (test_course t) d = None
                then Inl (Next ''TypeError'')
              else if \<not> isPublished t \<or> \<not> hasPurchasedCourse (sub_user s) (test_course t)
                then Inl (Status 403 ''Not authorized to take this test'')
              else if \<not> isActive (sub_now s) t
                then Inl (Status 400 ''Test is not currently active'')
              else Inr t)"

record grading =
  gr_attemptCount :: nat
  gr_answers :: "graded_answer list"
  gr_marksObtained :: nat
  gr_percentage :: jsnum
  gr_isPassed :: bool

text \<open>Lines 465--510: the attempt limit, the grading loop, percentage and pass status.\<close>

definition submit_grade :: "submission \<Rightarrow> test \<Rightarrow> db \<Rightarrow> failure + grading" where
  "submit_grade s t d =
     (let attemptCount = getAttemptCount (test_id t) (user_id (sub_user s)) d in
      if maxAttempts t \<le> attemptCount then Inl (Status 400 ''Maximum attempts exceeded'')
      else case grade_loop (questions t) (sub_answers s) 0 [] of
        Inl e \<Rightarrow> Inl e
      | Inr (marksObtained, gradedAnswers) \<Rightarrow>
          Inr \<lparr>gr_attemptCount = attemptCount, gr_answers = gradedAnswers,
               gr_marksObtained = marksObtained,
               gr_percentage = route_percentage marksObtained (totalMarks t),
               gr_isPassed = (passingMarks t \<le> int marksObtained)\<rparr>)"

record submit_response =
  sr_id :: oid
  sr_marksObtained :: nat
  sr_totalMarks :: nat
  sr_percentage :: jsnum
  sr_isPassed :: bool
  sr_timeTaken :: nat
  sr_attemptNumber :: nat
  sr_answers :: "graded_answer list option"
  sr_correctAnswers :: "(oid \<times> oid list \<times> jstring) list option"

text \<open>Lines 512--557: the result is created and the answer is shaped by the test's flags.\<close>

definition submit_create :: "submission \<Rightarrow> test \<Rightarrow> grading \<Rightarrow> db \<Rightarrow> (failure + submit_response) \<times> db" where
  "submit_create s t g d =
     (case TestResult_create
             \<lparr>tr_id = 0, tr_test = test_id t, tr_student = user_id (sub_user s),
              tr_course = test_course t, tr_answers = gr_answers g,
              tr_totalMarks = totalMarks t, tr_marksObtained = gr_marksObtained g,
              tr_percentage = gr_percentage g, tr_isPassed = gr_isPassed g,
              tr_timeTaken = sub_timeTaken s,
              tr_startedAt = sub_now s - int (sub_timeTaken s) * 60 * 1000,
              tr_submittedAt = sub_now s, attemptNumber = gr_attemptCount g + 1\<rparr> d of
        (Inl e, d') \<Rightarrow> (Inl e, d')
      | (Inr testResult, d') \<Rightarrow>
          (Inr \<lparr>sr_id = tr_id testResult, sr_marksObtained = gr_marksObtained g,
                sr_totalMarks = totalMarks t, sr_percentage = gr_percentage g,
                sr_isPassed = gr_isPassed g, sr_timeTaken = sub_timeTaken s,
                sr_attemptNumber = attemptNumber testResult,
                sr_answers = (if showResults t then Some (tr_answers testResult) else None),
                sr_correctAnswers =
                  (if showCorrectAnswers t
                     then Some (map (\<lambda>q. (q_id q,
                                 map opt_id (filter isCorrect (q_options q)), explanation q))
                               (questions t))
                   else None)\<rparr>, d'))"

definition submit :: "submission \<Rightarrow> db \<Rightarrow> (failure + submit_response) \<times> db" where
  "submit s d =
     (case submit_load s d of
        Inl e \<Rightarrow> (Inl e, d)
      | Inr t \<Rightarrow>
          (case submit_grade s t d of
             Inl e \<Rightarrow> (Inl e, d)
           | Inr g \<Rightarrow> submit_create s t g d))"

section \<open>Requests that overlap\<close>

text \<open>
  A handler runs alone until it reaches an \<^verbatim>\<open>await\<close>; while it waits for the database,
  other requests run. Each handler above is cut at its waits into steps that read or
  write the database once. A schedule names, step by step, the request that runs next;
  \<open>run\<close> executes it on the requests' continuations and the shared database.
\<close>

fun run ::
  "('q \<Rightarrow> 'k \<Rightarrow> db \<Rightarrow> 'k \<times> db) \<Rightarrow> 'q list \<Rightarrow> nat list \<Rightarrow> 'k list \<times> db \<Rightarrow> 'k list \<times> db"
where
  "run step reqs [] cfg = cfg"
| "run step reqs (i # sched) (ks, d) =
     (if i < length reqs \<and> i < length ks
        then case step (reqs ! i) (ks ! i) d of
               (k', d') \<Rightarrow> run step reqs sched (ks[i := k'], d')
      else run step reqs sched (ks, d))"

subsection \<open>POST /create-order and POST /offline\<close>

datatype purchase =
  OnlineOrder user oid "string option"
| OfflineRequest user oid jstring jstring date "jstring option" "string option"

datatype purchase_task =
  PurStart | PurChecked course | PurUploaded course string | PurDone "failure + oid"

fun purchase_step :: "purchase \<Rightarrow> purchase_task \<Rightarrow> db \<Rightarrow> purchase_task \<times> db" where
  "purchase_step (OnlineOrder u courseId order) PurStart d =
     (case online_checks u courseId d of
        Inl e \<Rightarrow> (PurDone (Inl e), d)
      | Inr c \<Rightarrow> (PurChecked c, d))"
| "purchase_step (OfflineRequest u courseId bank txn txnDate nts file) PurStart d =
     (case offline_checks u courseId bank txn nts file d of
        Inl e \<Rightarrow> (PurDone (Inl e), d)
      | Inr (c, path) \<Rightarrow> (PurUploaded c path, d))"
| "purchase_step (OnlineOrder u courseId order) (PurChecked c) d =
     (case create_online u c order d of (r, d') \<Rightarrow> (PurDone r, d'))"
| "purchase_step (OfflineRequest u courseId bank txn txnDate nts file) (PurUploaded c path) d =
     (case create_offline u c bank txn txnDate nts path d of (r, d') \<Rightarrow> (PurDone r, d'))"
| "purchase_step p k d = (k, d)"

text \<open>The pending payments of a student for a course.\<close>

definition pending_payments :: "oid \<Rightarrow> oid \<Rightarrow> db \<Rightarrow> payment list" where
  "pending_payments studentId courseId d =
     filter (\<lambda>p. pay_student p = studentId \<and> pay_course p = courseId \<and> status p = Pending)
       (payments d)"

subsection \<open>POST /verify\<close>

record verification =
  ver_user :: user
  ver_orderId :: string
  ver_paymentId :: string
  ver_signature :: string
  ver_now :: date

datatype verify_task = VerStart | VerFound "payment \<times> course option" | VerDone "failure + oid"

fun verify_step :: "(string \<Rightarrow> string) \<Rightarrow> verification \<Rightarrow> verify_task \<Rightarrow> db \<Rightarrow> verify_task \<times> db" where
  "verify_step hmac v VerStart d =
     (case verify_lookup (ver_user v) (ver_orderId v) (ver_paymentId v) (ver_signature v) d of
        Inl e \<Rightarrow> (VerDone (Inl e), d)
      | Inr pc \<Rightarrow> (VerFound pc, d))"
| "verify_step hmac v (VerFound pc) d =
     (case verify_settle hmac (ver_now v) (ver_user v) (ver_orderId v) (ver_paymentId v)
             (ver_signature v) pc d of
        (r, d') \<Rightarrow> (VerDone r, d'))"
| "verify_step hmac v (VerDone r) d = (VerDone r, d)"

subsection \<open>POST /:id/submit\<close>

datatype submit_task =
  SubStart | SubLoaded test | SubGraded test grading | SubDone "failure + submit_response"

fun submit_step :: "submission \<Rightarrow> submit_task \<Rightarrow> db \<Rightarrow> submit_task \<times> db" where
  "submit_step s SubStart d =
     (case submit_load s d of
        Inl e \<Rightarrow> (SubDone (Inl e), d)
      | Inr t \<Rightarrow> (SubLoaded t, d))"
| "submit_step s (SubLoaded t) d =
     (case submit_grade s t d of
        Inl e \<Rightarrow> (SubDone (Inl e), d)
      | Inr g \<Rightarrow> (SubGraded t g, d))"
| "submit_step s (SubGraded t g) d =
     (case submit_create s t g d of (r, d') \<Rightarrow> (SubDone r, d'))"
| "submit_step s (SubDone r) d = (SubDone r, d)"

text \<open>Submissions handled one after another, each to its end.\<close>

fun submit_all :: "submission list \<Rightarrow> db \<Rightarrow> (failure + submit_response) list \<times> db" where
  "submit_all [] d = ([], d)"
| "submit_all (s # ss) d =
     (case submit s d of
        (r, d') \<Rightarrow> (case submit_all ss d' of (rs, d'') \<Rightarrow> (r # rs, d'')))"

section \<open>Notions of the specification\<close>

text \<open>
  The attempt numbers of a student for a test, in the order the attempts were stored, and
  the invariant that they are \<open>1, 2, ..., n\<close>.
\<close>

definition attempt_numbers :: "oid \<Rightarrow> oid \<Rightarrow> db \<Rightarrow> nat list" where
  "attempt_numbers testId studentId d =
     map attemptNumber
       (filter (\<lambda>r. tr_test r = testId \<and> tr_student r = studentId) (testResults d))"

definition gap_free :: "db \<Rightarrow> bool" where
  "gap_free d =
     (\<forall>testId studentId. attempt_numbers testId studentId d
        = [1 ..< Suc (getAttemptCount testId studentId d)])"

text \<open>
  The invariant of a submission in flight: the count it read is not above the present
  count.
\<close>

definition task_inv :: "submission \<Rightarrow> submit_task \<Rightarrow> db \<Rightarrow> bool" where
  "task_inv s k d =
     (case k of
        SubGraded t g \<Rightarrow>
          gr_attemptCount g \<le> getAttemptCount (test_id t) (user_id (sub_user s)) d
      | _ \<Rightarrow> True)"

text \<open>The invariant of overlapping submissions: the database's, and every request's.\<close>

definition config_inv :: "submission list \<Rightarrow> submit_task list \<times> db \<Rightarrow> bool" where
  "config_inv subs cfg =
     (gap_free (snd cfg)
      \<and> (\<forall>i. i < length (fst cfg) \<and> i < length subs
             \<longrightarrow> task_inv (subs ! i) (fst cfg ! i) (snd cfg)))"

text \<open>Every stored test has a positive total.\<close>

definition positive_totals :: "db \<Rightarrow> bool" where
  "positive_totals d = list_all (\<lambda>t. 0 < totalMarks t) (tests d)"

text \<open>How a creation ends: nothing changes, or one result with the next number is appended.\<close>

definition appended :: "submission \<Rightarrow> test \<Rightarrow> grading \<Rightarrow> db \<Rightarrow> db \<Rightarrow> bool" where
  "appended s t g d d' =
     (\<exists>r. d' = d\<lparr>testResults := testResults d @ [r]\<rparr>
          \<and> tr_test r = test_id t \<and> tr_student r = user_id (sub_user s)
          \<and> attemptNumber r = gr_attemptCount g + 1
          \<and> gr_attemptCount g + 1 \<notin> set (attempt_numbers (test_id t) (user_id (sub_user s)) d))"

text \<open>The attempt number of an answer, or its failure.\<close>

definition attempt_result :: "failure + submit_response \<Rightarrow> failure + nat" where
  "attempt_result r = map_sum (\<lambda>e. e) sr_attemptNumber r"

text \<open>
  A submission of the student \<open>uid\<close> that passes the checks for the test \<open>t\<close> and whose
  answers all resolve.
\<close>

definition attempts_by :: "oid \<Rightarrow> test \<Rightarrow> db \<Rightarrow> submission \<Rightarrow> bool" where
  "attempts_by uid t d s =
     (user_id (sub_user s) = uid \<and> submit_load s d = Inr t
      \<and> \<not> isl (grade_loop (questions t) (sub_answers s) 0 []))"

text \<open>
  The answers to \<open>n\<close> such submissions handled one after another, \<open>used\<close> attempts being
  stored already: attempt numbers up to the limit, then refusals.
\<close>

fun quota_outcomes :: "nat \<Rightarrow> nat \<Rightarrow> nat \<Rightarrow> (failure + nat) list" where
  "quota_outcomes limit used 0 = []"
| "quota_outcomes limit used (Suc n) =
     (if used < limit then Inr (used + 1) # quota_outcomes limit (used + 1) n
      else Inl (Status 400 ''Maximum attempts exceeded'') # quota_outcomes limit used n)"

text \<open>The marks that an answer earns: those of its question when the chosen option is correct.\<close>

definition answer_marks :: "question list \<Rightarrow> answer \<Rightarrow> nat" where
  "answer_marks qs a =
     (case find (\<lambda>q. q_id q = ans_questionId a) qs of
        None \<Rightarrow> 0
      | Some q \<Rightarrow>
          (case find (\<lambda>opt. opt_id opt = ans_selectedOption a) (q_options q) of
             None \<Rightarrow> 0
           | Some opt \<Rightarrow> if isCorrect opt then marks q else 0))"

text \<open>
  The percentage in the words of the specification: \<open>marksObtained / totalMarks \<times> 100\<close>
  rounded to the nearest integer, and 0 when the total is 0.
\<close>

definition claimed_percentage :: "nat \<Rightarrow> nat \<Rightarrow> int" where
  "claimed_percentage marksObtained tot =
     (if tot = 0 then 0 else round (rat_of_nat marksObtained / rat_of_nat tot * 100))"

text \<open>
  What a question of the student's view carries in the words of the specification: the
  text, the marks, the difficulty, and the id and text of each option.
\<close>

definition claimed_fields :: "question \<Rightarrow> jstring \<times> nat \<times> difficulty \<times> (oid \<times> jstring) list" where
  "claimed_fields q =
     (q_question q, marks q, q_difficulty q, map (\<lambda>opt. (opt_id opt, opt_text opt)) (q_options q))"

text \<open>
  A test without its correctness data: every flag cleared, every explanation emptied. Two
  tests differ only in correctness data when this makes them equal.
\<close>

definition erase_correctness :: "test \<Rightarrow> test" where
  "erase_correctness t =
     t\<lparr>questions := map (\<lambda>q. q\<lparr>explanation := [],
            q_options := map (\<lambda>opt. opt\<lparr>isCorrect := False\<rparr>) (q_options q)\<rparr>) (questions t)\<rparr>"

text \<open>What GET /:id does for a student once the test is found.\<close>

definition student_answer :: "date \<Rightarrow> user \<Rightarrow> db \<Rightarrow> test \<Rightarrow> failure + test_data" where
  "student_answer now u d t =
     (if isPublished t \<and> findById_course (test_course t) d = None then Inl (Next ''TypeError'')
      else if \<not> (isPublished t \<and> hasPurchasedCourse u (test_course t))
        then Inl (Status 403 ''Not authorized to access this test'')
      else Inr ((toObject t)\<lparr>td_questions := Inr (getQuestionsForStudent t),
                  td_attemptCount := Some (getAttemptCount (test_id t) (user_id u) d),
                  td_canAttempt := Some (getAttemptCount (test_id t) (user_id u) d < maxAttempts t
                                         \<and> isActive now t)\<rparr>))"

section \<open>Example data\<close>

text \<open>Concrete documents for the closed theorems below.\<close>

definition demo_hmac :: "string \<Rightarrow> string" where
  "demo_hmac body = ''hmac:'' @ body"

definition student1 :: user where
  "student1 = \<lparr>user_id = 1, user_role = Student, enrolledCourses = []\<rparr>"

definition admin2 :: user where
  "admin2 = \<lparr>user_id = 2, user_role = Admin, enrolledCourses = []\<rparr>"

definition course10 :: course where
  "course10 = \<lparr>course_id = 10, instructor = 2, price = 2999, course_isPublished = True,
                enrollmentCount = 0\<rparr>"

definition db0 :: db where
  "db0 = \<lparr>users = [student1, admin2], courses = [course10], payments = [], tests = [],
          testResults = []\<rparr>"

definition pay_done :: payment where
  "pay_done = (new_payment 1 1 10 2999 Online)
     \<lparr>razorpayOrderId := Some ''order_A'', status := Completed,
      razorpayPaymentId := Some ''pay_A'', razorpaySignature := Some ''hmac:order_A|pay_A''\<rparr>"

definition pay_failed :: payment where
  "pay_failed = (new_payment 2 1 10 2999 Online)\<lparr>razorpayOrderId := Some ''order_B'', status := Failed\<rparr>"

definition pay_offline :: payment where
  "pay_offline = (new_payment 3 1 10 2999 Offline)
     \<lparr>offlineDetails := Some \<lparr>bankName = js ''SBI'', transactionId = js ''T1'', transactionDate = 100,
        screenshot = ''uploads/t1.png'', od_notes = None\<rparr>\<rparr>"

definition db_pay :: db where
  "db_pay = db0\<lparr>payments := [pay_done, pay_failed, pay_offline]\<rparr>"


definition student_enrolled :: user where
  "student_enrolled = \<lparr>user_id = 3, user_role = Student,
     enrolledCourses = [\<lparr>enr_course = 10, enr_enrolledAt = 50, enr_paymentStatus = EnrCompleted,
                         enr_paymentMethod = Online\<rparr>]\<rparr>"

definition question1 :: question where
  "question1 = \<lparr>q_id = 1, q_question = js ''2 + 2 = ?'',
     q_options = [\<lparr>opt_id = 11, opt_text = js ''4'', isCorrect = True\<rparr>,
                  \<lparr>opt_id = 12, opt_text = js ''5'', isCorrect = False\<rparr>],
     explanation = js ''addition'', q_difficulty = Easy, marks = 1\<rparr>"

definition question5 :: question where
  "question5 = \<lparr>q_id = 2, q_question = js ''3 * 3 = ?'',
     q_options = [\<lparr>opt_id = 21, opt_text = js ''9'', isCorrect = True\<rparr>,
                  \<lparr>opt_id = 22, opt_text = js ''6'', isCorrect = False\<rparr>],
     explanation = js ''multiplication'', q_difficulty = Medium, marks = 5\<rparr>"

definition test100 :: test where
  "test100 = \<lparr>test_id = 100, title = js ''Arithmetic'', description = None, test_course = 10,
     createdBy = 2, subject = js ''Maths'', topic = None, questions = [question1],
     duration = 30, totalMarks = 1, passingMarks = 1, isPublished = True, startDate = None,
     endDate = None, maxAttempts = 2, shuffleQuestions = False, showResults = True,
     showCorrectAnswers = True, isAIGenerated = False, aiPrompt = None\<rparr>"

text \<open>The same test, opening at time 9000.\<close>

definition test_future :: test where
  "test_future = test100\<lparr>test_id := 101, startDate := Some 9000\<rparr>"

text \<open>Test 100 with the other option marked correct and another explanation.\<close>

definition test100_flipped :: test where
  "test100_flipped = test100\<lparr>questions :=
     [question1\<lparr>q_options := [\<lparr>opt_id = 11, opt_text = js ''4'', isCorrect = False\<rparr>,
                                \<lparr>opt_id = 12, opt_text = js ''5'', isCorrect = True\<rparr>],
                 explanation := js ''changed''\<rparr>]\<rparr>"

text \<open>Test 100 with another id for its question, and nothing else changed.\<close>

definition test100_renumbered :: test where
  "test100_renumbered = test100\<lparr>questions := [question1\<lparr>q_id := 7\<rparr>]\<rparr>"

definition db_tests :: db where
  "db_tests = \<lparr>users = [student1, admin2, student_enrolled], courses = [course10], payments = [],
     tests = [test100, test_future], testResults = []\<rparr>"

definition answer_right :: answer where
  "answer_right = \<lparr>ans_questionId = 1, ans_selectedOption = 11, ans_timeTaken = None\<rparr>"

definition sub100 :: "oid \<Rightarrow> answer list \<Rightarrow> submission" where
  "sub100 testId as = \<lparr>sub_user = student_enrolled, sub_test = testId, sub_answers = as,
     sub_timeTaken = 10, sub_now = 5000\<rparr>"

definition body_questions :: "question list \<Rightarrow> test_update" where
  "body_questions qs = \<lparr>upd_title = None, upd_description = None, upd_duration = None,
     upd_passingMarks = None, upd_maxAttempts = None, upd_shuffleQuestions = None,
     upd_showResults = None, upd_showCorrectAnswers = None,
     upd_startDate = None, upd_endDate = None, upd_isPublished = None, upd_questions = Some qs\<rparr>"

text \<open>Student 1 has a pending online payment for course 10, with the gateway's order A.\<close>

definition pay_pending :: payment where
  "pay_pending = (new_payment 1 1 10 2999 Online)\<lparr>razorpayOrderId := Some ''order_A''\<rparr>"

definition db_pending :: db where
  "db_pending = db0\<lparr>payments := [pay_pending]\<rparr>"

text \<open>Two orders of student 1 for course 10, and the database after one and after both.\<close>

definition order_A :: purchase where
  "order_A = OnlineOrder student1 10 (Some ''order_A'')"

definition order_B :: purchase where
  "order_B = OnlineOrder student1 10 (Some ''order_B'')"

definition pay_pending_B :: payment where
  "pay_pending_B = (new_payment 2 1 10 2999 Online)\<lparr>razorpayOrderId := Some ''order_B''\<rparr>"

definition db_two_pending :: db where
  "db_two_pending = db0\<lparr>payments := [pay_pending, pay_pending_B]\<rparr>"

definition verify_A :: verification where
  "verify_A = \<lparr>ver_user = student1, ver_orderId = ''order_A'', ver_paymentId = ''pay_A'',
     ver_signature = ''hmac:order_A|pay_A'', ver_now = 5000\<rparr>"

text \<open>The database after order A is verified once, and after its settlement ran twice.\<close>

definition pay_verified :: payment where
  "pay_verified = pay_pending\<lparr>status := Completed, razorpayPaymentId := Some ''pay_A'',
     razorpaySignature := Some ''hmac:order_A|pay_A''\<rparr>"

definition enrollment_online :: enrollment where
  "enrollment_online = \<lparr>enr_course = 10, enr_enrolledAt = 5000, enr_paymentStatus = EnrCompleted,
     enr_paymentMethod = Online\<rparr>"

definition db_verified_once :: db where
  "db_verified_once = \<lparr>users = [student1\<lparr>enrolledCourses := [enrollment_online]\<rparr>, admin2],
     courses = [course10\<lparr>enrollmentCount := 1\<rparr>], payments = [pay_verified], tests = [],
     testResults = []\<rparr>"

definition db_verified_twice :: db where
  "db_verified_twice =
     \<lparr>users = [student1\<lparr>enrolledCourses := [enrollment_online, enrollment_online]\<rparr>, admin2],
      courses = [course10\<lparr>enrollmentCount := 2\<rparr>], payments = [pay_verified], tests = [],
      testResults = []\<rparr>"

text \<open>A right answer to test 100, its grading as a first attempt, and the stored result.\<close>

definition sub_right :: submission where
  "sub_right = sub100 100 [answer_right]"

definition graded_right :: graded_answer where
  "graded_right = \<lparr>ga_questionId = 1, ga_selectedOption = 11, ga_isCorrect = True,
     ga_marksObtained = 1, ga_timeTaken = 0\<rparr>"

definition grading_first :: grading where
  "grading_first = \<lparr>gr_attemptCount = 0, gr_answers = [graded_right], gr_marksObtained = 1,
     gr_percentage = Num 100, gr_isPassed = True\<rparr>"

definition result_first :: test_result where
  "result_first = \<lparr>tr_id = 1, tr_test = 100, tr_student = 3, tr_course = 10,
     tr_answers = [graded_right], tr_totalMarks = 1, tr_marksObtained = 1,
     tr_percentage = Num 100, tr_isPassed = True, tr_timeTaken = 10, tr_startedAt = - 595000,
     tr_submittedAt = 5000, attemptNumber = 1\<rparr>"

definition db_one_attempt :: db where
  "db_one_attempt = db_tests\<lparr>testResults := [result_first]\<rparr>"

definition attempt_number_of :: "submit_task \<Rightarrow> failure + nat" where
  "attempt_number_of k =
     (case k of SubDone r \<Rightarrow> map_sum (\<lambda>e. e) sr_attemptNumber r | _ \<Rightarrow> Inl (Next ''running''))"

text \<open>
  A request of admin 2 for a test of two questions, of 23 and 17 marks, the test as
  POST / stores it, the request that publishes it, and the database after each.
\<close>

definition body_marks :: test_body where
  "body_marks = \<lparr>tb_title = js ''Fractions'', tb_description = None, tb_courseId = 10,
     tb_subject = js ''Maths'', tb_topic = None, tb_duration = 30,
     tb_questions =
       [\<lparr>qb_question = js ''1/2 + 1/4 = ?'',
         qb_options = [\<lparr>ob_text = js ''3/4'', ob_isCorrect = True\<rparr>,
                       \<lparr>ob_text = js ''2/6'', ob_isCorrect = False\<rparr>],
         qb_explanation = [], qb_difficulty = None, qb_marks = Some 23\<rparr>,
        \<lparr>qb_question = js ''1/2 * 1/4 = ?'',
         qb_options = [\<lparr>ob_text = js ''1/8'', ob_isCorrect = True\<rparr>,
                       \<lparr>ob_text = js ''2/8'', ob_isCorrect = False\<rparr>],
         qb_explanation = [], qb_difficulty = None, qb_marks = Some 17\<rparr>],
     tb_passingMarks = None, tb_maxAttempts = None, tb_shuffleQuestions = None,
     tb_showResults = None, tb_showCorrectAnswers = None, tb_startDate = None,
     tb_endDate = None\<rparr>"

definition test_marks :: test where
  "test_marks = \<lparr>test_id = 102, title = js ''Fractions'', description = None, test_course = 10,
     createdBy = 2, subject = js ''Maths'', topic = None,
     questions =
       [\<lparr>q_id = 13, q_question = js ''1/2 + 1/4 = ?'',
         q_options = [\<lparr>opt_id = 14, opt_text = js ''3/4'', isCorrect = True\<rparr>,
                      \<lparr>opt_id = 15, opt_text = js ''2/6'', isCorrect = False\<rparr>],
         explanation = [], q_difficulty = Medium, marks = 23\<rparr>,
        \<lparr>q_id = 16, q_question = js ''1/2 * 1/4 = ?'',
         q_options = [\<lparr>opt_id = 17, opt_text = js ''1/8'', isCorrect = True\<rparr>,
                      \<lparr>opt_id = 18, opt_text = js ''2/8'', isCorrect = False\<rparr>],
         explanation = [], q_difficulty = Medium, marks = 17\<rparr>],
     duration = 30, totalMarks = 40, passingMarks = 2, isPublished = False, startDate = None,
     endDate = None, maxAttempts = 1, shuffleQuestions = False, showResults = True,
     showCorrectAnswers = True, isAIGenerated = False, aiPrompt = None\<rparr>"

definition body_publish :: test_update where
  "body_publish = \<lparr>upd_title = None, upd_description = None, upd_duration = None,
     upd_passingMarks = None, upd_maxAttempts = None, upd_shuffleQuestions = None,
     upd_showResults = None, upd_showCorrectAnswers = None,
     upd_startDate = None, upd_endDate = None, upd_isPublished = Some True,
     upd_questions = None\<rparr>"

definition db_created :: db where
  "db_created = db_tests\<lparr>tests := [test100, test_future, test_marks]\<rparr>"

definition db_marks :: db where
  "db_marks = db_tests\<lparr>tests := [test100, test_future, test_marks\<lparr>isPublished := True\<rparr>]\<rparr>"

text \<open>
  The enrolled student answers the first question of that test rightly and the second
  wrongly: 23 marks of 40. The stored result and the answer of the handler.
\<close>

definition sub_marks :: submission where
  "sub_marks = \<lparr>sub_user = student_enrolled, sub_test = 102,
     sub_answers = [\<lparr>ans_questionId = 13, ans_selectedOption = 14, ans_timeTaken = None\<rparr>,
                    \<lparr>ans_questionId = 16, ans_selectedOption = 18, ans_timeTaken = None\<rparr>],
     sub_timeTaken = 10, sub_now = 5000\<rparr>"

definition graded_marks :: "graded_answer list" where
  "graded_marks =
     [\<lparr>ga_questionId = 13, ga_selectedOption = 14, ga_isCorrect = True, ga_marksObtained = 23,
       ga_timeTaken = 0\<rparr>,
      \<lparr>ga_questionId = 16, ga_selectedOption = 18, ga_isCorrect = False, ga_marksObtained = 0,
       ga_timeTaken = 0\<rparr>]"

definition result_marks :: test_result where
  "result_marks = \<lparr>tr_id = 1, tr_test = 102, tr_student = 3, tr_course = 10,
     tr_answers = graded_marks, tr_totalMarks = 40, tr_marksObtained = 23,
     tr_percentage = Num 57, tr_isPassed = True, tr_timeTaken = 10, tr_startedAt = - 595000,
     tr_submittedAt = 5000, attemptNumber = 1\<rparr>"

definition response_marks :: submit_response where
  "response_marks = \<lparr>sr_id = 1, sr_marksObtained = 23, sr_totalMarks = 40,
     sr_percentage = Num 57, sr_isPassed = True, sr_timeTaken = 10, sr_attemptNumber = 1,
     sr_answers = Some graded_marks,
     sr_correctAnswers = Some [(13, [14], []), (16, [17], [])]\<rparr>"

text \<open>
  Test 100 is deleted while a second submission of student 3 is in flight: the database
  after the deletion, and after the submission's result is created.
\<close>

definition db_deleted :: db where
  "db_deleted = db_tests\<lparr>tests := [test_future]\<rparr>"

definition grading_second :: grading where
  "grading_second = grading_first\<lparr>gr_attemptCount := 1\<rparr>"

definition result_second :: test_result where
  "result_second = result_first\<lparr>attemptNumber := 2\<rparr>"

section \<open>Properties of the payment handlers\<close>

lemma payments_save_user [simp]: "payments (save_user u d) = payments d"
  by (simp add: save_user_def)

lemma payments_inc_enrollmentCount [simp]: "payments (inc_enrollmentCount i d) = payments d"
  by (simp add: inc_enrollmentCount_def)

lemma users_save_payment [simp]: "users (save_payment p d) = users d"
  by (simp add: save_payment_def)

lemma courses_save_payment [simp]: "courses (save_payment p d) = courses d"
  by (simp add: save_payment_def)

lemma find_Some_pred: "find P xs = Some x \<Longrightarrow> P x"
  by (induction xs) (auto split: if_splits)

lemma find_replace_same_id:
  "find (\<lambda>x. payment_id x = i) ps = Some p \<Longrightarrow> payment_id q = i \<Longrightarrow>
   find (\<lambda>x. payment_id x = i) (map (\<lambda>x. if payment_id x = i then q else x) ps) = Some q"
  by (induction ps) (auto split: if_splits)

lemma findById_payment_save:
  "findById_payment i d = Some p \<Longrightarrow> payment_id q = payment_id p \<Longrightarrow>
   findById_payment i (save_payment q d) = Some q"
proof -
  assume f: "findById_payment i d = Some p" and q: "payment_id q = payment_id p"
  from f have "payment_id p = i"
    unfolding findById_payment_def by (auto dest: find_Some_pred)
  with f q show ?thesis
    unfolding findById_payment_def save_payment_def by (simp add: find_replace_same_id)
qed

lemma payments_enroll_offline [simp]: "payments (snd (enroll_offline now uid c d)) = payments d"
  by (simp add: enroll_offline_def Let_def split: option.splits)

lemma findById_payment_cong: "payments d' = payments d \<Longrightarrow> findById_payment i d' = findById_payment i d"
  by (simp add: findById_payment_def)

lemma findById_user_save_payment [simp]: "findById_user i (save_payment p d) = findById_user i d"
  by (simp add: findById_user_def)

lemma findById_user_id: "findById_user i d = Some u \<Longrightarrow> user_id u = i"
  unfolding findById_user_def by (auto dest: find_Some_pred)

lemma enroll_offline_ok:
  "findById_user uid d = Some u \<Longrightarrow> fst (enroll_offline now uid (Some c) d) = None"
  by (simp add: enroll_offline_def Let_def split: option.splits)

subsection \<open>C5: verifying an order whose payment is already terminal\<close>

text \<open>
  C5, as amended. The lookup of POST /verify only matches a pending payment of the caller.
  When every payment of the order is in a terminal status, the handler changes nothing
  and answers 404 \<^verbatim>\<open>Payment record not found\<close>: the state is kept, but the answer is an
  error and not the existing terminal state.
\<close>

theorem verify_terminal_not_found:
  assumes "user_role u = Student" and "orderId \<noteq> []" and "paymentId \<noteq> []" and "signature \<noteq> []"
    and "\<forall>p \<in> set (payments d).
           razorpayOrderId p = Some orderId \<and> pay_student p = user_id u \<longrightarrow> status p \<noteq> Pending"
  shows "verify hmac now u orderId paymentId signature d
           = (Inl (Status 404 ''Payment record not found''), d)"
proof -
  have "find (\<lambda>p. razorpayOrderId p = Some orderId \<and> pay_student p = user_id u \<and> status p = Pending)
          (payments d) = None"
    using assms(5) by (auto simp: find_None_iff)
  with assms(1-4) show ?thesis
    by (simp add: verify_def verify_lookup_def requireStudent_def)
qed

subsection \<open>C6: the guards and transitions of approve and reject\<close>

text \<open>
  C6. For a payment that exists, whose references resolve, and an actor who may act on it
  (superadmin, or the admin who teaches the course): unless the payment is offline and
  pending, approve and reject answer 400 (\<^verbatim>\<open>Only offline payments can be ... manually\<close>,
  \<^verbatim>\<open>Payment is not in pending status\<close>) and leave the database as it was. Otherwise approve
  succeeds and stores the payment as completed with approver and time, and reject succeeds
  and stores it as failed with rejecter, time and the trimmed reason.
\<close>

theorem approve_reject_guarded:
  assumes found: "findById_payment pid d = Some p"
    and auth: "user_role actor = Superadmin \<or>
               (user_role actor = Admin \<and>
                map_option instructor (findById_course (pay_course p) d) = Some (user_id actor))"
    and refs: "findById_user (pay_student p) d \<noteq> None" "findById_course (pay_course p) d \<noteq> None"
    and reason: "trim reason \<noteq> []"
  shows "(if paymentMethod p = Offline \<and> status p = Pending
          then fst (approve now actor pid d) = Inr (payment_approve now (user_id actor) p)
             \<and> findById_payment pid (snd (approve now actor pid d))
                 = Some (p\<lparr>status := Completed, approvedBy := Some (user_id actor),
                           approvedAt := Some now\<rparr>)
             \<and> fst (reject now actor pid reason d) = Inr (payment_reject now (user_id actor) (trim reason) p)
             \<and> findById_payment pid (snd (reject now actor pid reason d))
                 = Some (p\<lparr>status := Failed, rejectedBy := Some (user_id actor),
                           rejectedAt := Some now, rejectionReason := Some (trim reason)\<rparr>)
          else approve now actor pid d
                 = (Inl (Status 400 (if paymentMethod p \<noteq> Offline
                                     then ''Only offline payments can be approved manually''
                                     else ''Payment is not in pending status'')), d)
             \<and> reject now actor pid reason d
                 = (Inl (Status 400 (if paymentMethod p \<noteq> Offline
                                     then ''Only offline payments can be rejected manually''
                                     else ''Payment is not in pending status'')), d))"
proof (cases "paymentMethod p = Offline \<and> status p = Pending")
  case False
  with found auth refs reason show ?thesis
    by (auto simp: approve_def reject_def requireAdmin_def manual_guards_def)
next
  case True
  obtain s where s: "findById_user (pay_student p) d = Some s" using refs by auto
  obtain c where c: "findById_course (pay_course p) d = Some c" using refs by auto
  have g1: "manual_guards ''approve'' ''approved'' actor pid d = Inr p"
    using found auth True c by (auto simp: manual_guards_def)
  have g2: "manual_guards ''reject'' ''rejected'' actor pid d = Inr p"
    using found auth True c by (auto simp: manual_guards_def)
  have adm: "requireAdmin actor = None" using auth by (auto simp: requireAdmin_def)
  let ?p' = "payment_approve now (user_id actor) p"
  let ?d1 = "save_payment ?p' d"
  have sid: "user_id s = pay_student p" using s by (rule findById_user_id)
  have e: "fst (enroll_offline now (user_id s) (Some c) ?d1) = None"
    using s sid by (intro enroll_offline_ok[where u = s]) simp
  have ap: "approve now actor pid d = (Inr ?p', snd (enroll_offline now (user_id s) (Some c) ?d1))"
    using adm g1 s c e
    by (simp add: approve_def Let_def split: prod.splits option.splits) (metis fst_conv option.distinct(1))
  have f1: "findById_payment pid ?d1 = Some ?p'"
    using found by (rule findById_payment_save) (simp add: payment_approve_def)
  have f2: "findById_payment pid (snd (enroll_offline now (user_id s) (Some c) ?d1)) = Some ?p'"
    using f1 by (simp add: findById_payment_cong[OF payments_enroll_offline])
  let ?q' = "payment_reject now (user_id actor) (trim reason) p"
  have rj: "reject now actor pid reason d = (Inr ?q', save_payment ?q' d)"
    using adm g2 reason by (simp add: reject_def Let_def)
  have f3: "findById_payment pid (save_payment ?q' d) = Some ?q'"
    using found by (rule findById_payment_save) (simp add: payment_reject_def)
  show ?thesis using True ap f2 rj f3
    by (simp add: payment_approve_def payment_reject_def)
qed

text \<open>The theorem at a failed payment's order.\<close>

theorem verify_terminal_not_found_witness:
  "verify demo_hmac 5000 student1 ''order_B'' ''pay_B'' ''hmac:order_B|pay_B'' db_pay
     = (Inl (Status 404 ''Payment record not found''), db_pay)"
  using verify_terminal_not_found [of student1 "''order_B''" "''pay_B''" "''hmac:order_B|pay_B''"
      db_pay demo_hmac 5000]
  by (simp add: student1_def db_pay_def db0_def pay_done_def pay_failed_def pay_offline_def
      new_payment_def)

text \<open>
  C5 as stated fails: payment 1 is completed, the signature is the right one, and the
  second verification is answered with the 404 error.
\<close>

theorem verify_terminal_counterexample:
  "findById_payment 1 db_pay = Some pay_done \<and> status pay_done = Completed
   \<and> verifyPaymentSignature demo_hmac ''order_A'' ''pay_A'' ''hmac:order_A|pay_A''
   \<and> fst (verify demo_hmac 5000 student1 ''order_A'' ''pay_A'' ''hmac:order_A|pay_A'' db_pay)
       = Inl (Status 404 ''Payment record not found'')"
  by (simp add: verify_def verify_lookup_def requireStudent_def findById_payment_def
      verifyPaymentSignature_def demo_hmac_def
      student1_def db_pay_def db0_def pay_done_def pay_failed_def pay_offline_def new_payment_def)

text \<open>
  The theorem at the pending offline payment 3 and at the online payment 1. The reason
  has a no-break space before it and an ideographic space after it.
\<close>

theorem approve_reject_guarded_witness:
  "fst (approve 7000 admin2 3 db_pay) = Inr (payment_approve 7000 2 pay_offline)
   \<and> status (payment_approve 7000 2 pay_offline) = Completed
   \<and> fst (reject 7000 admin2 3 (0xA0 # js ''no receipt'' @ [0x3000]) db_pay)
       = Inr (payment_reject 7000 2 (js ''no receipt'') pay_offline)
   \<and> approve 7000 admin2 1 db_pay
       = (Inl (Status 400 ''Only offline payments can be approved manually''), db_pay)"
  using approve_reject_guarded [of 3 db_pay pay_offline admin2 "0xA0 # js ''no receipt'' @ [0x3000]" 7000]
    approve_reject_guarded [of 1 db_pay pay_done admin2 "0xA0 # js ''no receipt'' @ [0x3000]" 7000]
  by (simp add: findById_payment_def findById_user_def findById_course_def trim_def is_space_def
      js_def payment_approve_def
      admin2_def student1_def course10_def db_pay_def db0_def pay_done_def pay_failed_def
      pay_offline_def new_payment_def)

text \<open>
  A reason of white space only is refused by the validator before the payment is looked
  at: a no-break space, a line separator and a byte order mark are white space.
\<close>

lemma reject_blank_reason:
  "reject 7000 admin2 3 [0xA0, 0x2028, 0xFEFF, 0x20] db_pay
     = (Inl (Status 400 ''Validation failed''), db_pay)"
  by (simp add: reject_def requireAdmin_def trim_def is_space_def admin2_def)

subsection \<open>C1: one pending payment per student and course\<close>

lemma order_A_check: "purchase_step order_A PurStart db0 = (PurChecked course10, db0)"
  by (simp add: order_A_def online_checks_def purchase_checks_def requireStudent_def
      findById_course_def hasPurchasedCourse_def findPending_def student1_def course10_def db0_def)

lemma order_B_check: "purchase_step order_B PurStart db0 = (PurChecked course10, db0)"
  by (simp add: order_B_def online_checks_def purchase_checks_def requireStudent_def
      findById_course_def hasPurchasedCourse_def findPending_def student1_def course10_def db0_def)

lemma order_A_create:
  "purchase_step order_A (PurChecked course10) db0 = (PurDone (Inr 1), db_pending)"
  by (simp add: order_A_def create_online_def create_payment_def fresh_id_def Let_def
      db_pending_def pay_pending_def student1_def course10_def db0_def)

lemma order_B_create:
  "purchase_step order_B (PurChecked course10) db_pending = (PurDone (Inr 2), db_two_pending)"
  by (simp add: order_B_def create_online_def create_payment_def fresh_id_def Let_def
      db_pending_def db_two_pending_def pay_pending_def pay_pending_B_def student1_def
      course10_def db0_def new_payment_def)

lemma findById_course_id: "findById_course i d = Some c \<Longrightarrow> course_id c = i"
  unfolding findById_course_def by (auto dest: find_Some_pred)

lemma purchase_checks_none_pending:
  assumes "purchase_checks u cid d = Inr c"
  shows "course_id c = cid \<and> pending_payments (user_id u) cid d = []"
proof -
  from assms have c: "findById_course cid d = Some c"
    and p: "findPending (user_id u) cid d = None"
    by (auto simp: purchase_checks_def split: option.splits if_splits)
  from p have "pending_payments (user_id u) cid d = []"
    by (auto simp: findPending_def pending_payments_def find_None_iff filter_empty_conv)
  with findById_course_id[OF c] show ?thesis by simp
qed

lemma pending_payments_create:
  "pending_payments S C (create_payment p d)
     = pending_payments S C d
       @ (if pay_student p = S \<and> pay_course p = C \<and> status p = Pending then [p] else [])"
  by (simp add: pending_payments_def create_payment_def)

text \<open>
  Handled one at a time, an order or an offline request never adds a second pending
  payment of a student for a course.
\<close>

lemma create_order_one_pending:
  assumes "length (pending_payments S C d) \<le> 1"
  shows "length (pending_payments S C (snd (create_order u cid order d))) \<le> 1"
proof (cases "online_checks u cid d")
  case (Inl e)
  with assms show ?thesis by (simp add: create_order_def)
next
  case (Inr c)
  then have "purchase_checks u cid d = Inr c"
    by (auto simp: online_checks_def split: option.splits)
  from purchase_checks_none_pending[OF this] assms Inr show ?thesis
    by (auto simp: create_order_def create_online_def pending_payments_create new_payment_def
        Let_def split: option.splits)
qed

lemma request_offline_one_pending:
  assumes "length (pending_payments S C d) \<le> 1"
  shows "length (pending_payments S C (snd (request_offline u cid bank txn txnDate nts file d))) \<le> 1"
proof (cases "offline_checks u cid bank txn nts file d")
  case (Inl e)
  with assms show ?thesis by (simp add: request_offline_def)
next
  case (Inr cp)
  then obtain c path where cp: "cp = (c, path)" and "purchase_checks u cid d = Inr c"
    by (cases cp) (auto simp: offline_checks_def split: option.splits if_splits sum.splits)
  from purchase_checks_none_pending[OF this(2)] assms Inr cp show ?thesis
    by (auto simp: request_offline_def create_offline_def pending_payments_create new_payment_def
        Let_def)
qed

text \<open>Handled after order A has finished, order B is refused.\<close>

lemma order_B_after_A:
  "create_order student1 10 (Some ''order_A'') db0 = (Inr 1, db_pending)
   \<and> create_order student1 10 (Some ''order_B'') db_pending
       = (Inl (Status 400 ''You already have a pending payment for this course''), db_pending)"
  by (simp add: create_order_def online_checks_def purchase_checks_def requireStudent_def
      findById_course_def hasPurchasedCourse_def findPending_def create_online_def
      create_payment_def fresh_id_def Let_def student1_def course10_def
      db0_def db_pending_def pay_pending_def new_payment_def)

text \<open>
  C1 fails on the code. Two orders of student 1 for course 10 overlap: both run their checks
  (no pending payment yet) before either creates its payment. Both succeed, and two
  pending payments of the pair are stored. The index on (student, course, status) is not
  unique, so nothing refuses the second insert.
\<close>

theorem overlapping_orders_both_pending:
  "run purchase_step [order_A, order_B] [0, 1, 0, 1] ([PurStart, PurStart], db0)
     = ([PurDone (Inr 1), PurDone (Inr 2)], db_two_pending)
   \<and> pending_payments 1 10 db_two_pending = [pay_pending, pay_pending_B]"
  by (simp del: purchase_step.simps add: order_A_check order_B_check order_A_create order_B_create)
     (simp add: pending_payments_def db_two_pending_def pay_pending_def pay_pending_B_def
        new_payment_def)

subsection \<open>C4: settling the same payment twice\<close>

lemma update_first_twice:
  assumes "\<And>x. P (f x) = P x" and "\<And>x. f (f x) = f x"
  shows "update_first P f (update_first P f xs) = update_first P f xs"
  by (induction xs) (simp_all add: assms)

lemma find_update_first:
  assumes "\<And>x. P (f x) = P x"
  shows "find P (update_first P f xs) = map_option f (find P xs)"
  by (induction xs) (simp_all add: assms)

lemma update_first_snoc:
  "find P xs = None \<Longrightarrow> P x \<Longrightarrow> update_first P f (xs @ [x]) = xs @ [f x]"
  by (induction xs) (auto split: if_splits)

lemma find_snoc: "find P xs = None \<Longrightarrow> P x \<Longrightarrow> find P (xs @ [x]) = Some x"
  by (induction xs) (auto split: if_splits)

lemma find_replace_user:
  "find (\<lambda>x. user_id x = i) us = Some u \<Longrightarrow> user_id u' = i \<Longrightarrow>
   find (\<lambda>x. user_id x = i) (map (\<lambda>x. if user_id x = i then u' else x) us) = Some u'"
  by (induction us) (auto split: if_splits)

lemma findById_user_save:
  "findById_user i d = Some u \<Longrightarrow> user_id u' = i \<Longrightarrow> findById_user i (save_user u' d) = Some u'"
  unfolding findById_user_def save_user_def by (simp add: find_replace_user)

lemma save_user_twice: "save_user u (save_user u d) = save_user u d"
  by (simp add: save_user_def comp_def)

lemma save_user_inc: "save_user u (inc_enrollmentCount i d) = inc_enrollmentCount i (save_user u d)"
  by (simp add: save_user_def inc_enrollmentCount_def)

lemma findById_user_inc [simp]: "findById_user i (inc_enrollmentCount j d) = findById_user i d"
  by (simp add: findById_user_def inc_enrollmentCount_def)

text \<open>
  The approval's settlement is idempotent: run again for the same student and course, at
  any time, it leaves the database (enrollments and counter) as the first run left it.
\<close>

lemma enroll_offline_replay:
  "snd (enroll_offline now2 uid c (snd (enroll_offline now1 uid c d)))
     = snd (enroll_offline now1 uid c d)"
proof (cases "findById_user uid d")
  case None
  then show ?thesis by (simp add: enroll_offline_def)
next
  case (Some u)
  then have uid: "user_id u = uid" by (rule findById_user_id)
  show ?thesis
  proof (cases c)
    case None
    with Some show ?thesis by (simp add: enroll_offline_def)
  next
    case (Some crs)
    let ?P = "\<lambda>e. enr_course e = course_id crs"
    let ?f = "\<lambda>e. e\<lparr>enr_paymentStatus := EnrCompleted\<rparr>"
    show ?thesis
    proof (cases "find ?P (enrolledCourses u)")
      case None
      let ?e = "\<lparr>enr_course = course_id crs, enr_enrolledAt = now1,
                 enr_paymentStatus = EnrCompleted, enr_paymentMethod = Offline\<rparr>"
      let ?u = "u\<lparr>enrolledCourses := enrolledCourses u @ [?e]\<rparr>"
      let ?d1 = "inc_enrollmentCount (course_id crs) (save_user ?u d)"
      have first: "enroll_offline now1 uid c d = (None, ?d1)"
        using \<open>findById_user uid d = Some u\<close> Some None by (simp add: enroll_offline_def Let_def)
      have u1: "findById_user uid ?d1 = Some ?u"
        using findById_user_save[OF \<open>findById_user uid d = Some u\<close>, of ?u] uid by simp
      have f1: "find ?P (enrolledCourses ?u) = Some ?e"
        using None by (simp add: find_snoc)
      have upd: "update_first ?P ?f (enrolledCourses ?u) = enrolledCourses ?u"
        using None by (simp add: update_first_snoc)
      have "enroll_offline now2 uid c ?d1 = (None, save_user ?u ?d1)"
        using u1 Some f1 upd by (simp add: enroll_offline_def)
      also have "save_user ?u ?d1 = ?d1"
        by (simp add: save_user_inc save_user_twice)
      finally show ?thesis using first by simp
    next
      case (Some existing)
      let ?u = "u\<lparr>enrolledCourses := update_first ?P ?f (enrolledCourses u)\<rparr>"
      let ?d1 = "save_user ?u d"
      have first: "enroll_offline now1 uid c d = (None, ?d1)"
        using \<open>findById_user uid d = Some u\<close> \<open>c = Some crs\<close> Some
        by (simp add: enroll_offline_def)
      have u1: "findById_user uid ?d1 = Some ?u"
        using findById_user_save[OF \<open>findById_user uid d = Some u\<close>, of ?u] uid by simp
      have f1: "find ?P (enrolledCourses ?u) = Some (?f existing)"
        using Some by (simp add: find_update_first)
      have upd: "update_first ?P ?f (enrolledCourses ?u) = enrolledCourses ?u"
        by (simp add: update_first_twice)
      have "enroll_offline now2 uid c ?d1 = (None, save_user ?u ?d1)"
        using u1 \<open>c = Some crs\<close> f1 upd by (simp add: enroll_offline_def)
      also have "save_user ?u ?d1 = ?d1"
        by (simp add: save_user_twice)
      finally show ?thesis using first by simp
    qed
  qed
qed


lemma instructor_lookup:
  "map_option instructor (find (\<lambda>c. course_id c = i) cs)
     = map_option snd (find (\<lambda>x. fst x = i) (map (\<lambda>c. (course_id c, instructor c)) cs))"
  by (induction cs) simp_all

lemma instructors_enroll_offline:
  "map (\<lambda>c. (course_id c, instructor c)) (courses (snd (enroll_offline now uid c d)))
     = map (\<lambda>c. (course_id c, instructor c)) (courses d)"
  by (simp add: enroll_offline_def save_user_def inc_enrollmentCount_def Let_def comp_def
      split: option.splits)

text \<open>A second approval of the same payment, handled after the first, is refused.\<close>

lemma approve_replay:
  assumes "approve now1 actor pid d = (Inr p', d')"
  shows "approve now2 actor pid d'
           = (Inl (Status 400 ''Payment is not in pending status''), d')"
proof -
  from assms have adm: "requireAdmin actor = None"
    by (auto simp: approve_def split: option.splits)
  with assms obtain p where g: "manual_guards ''approve'' ''approved'' actor pid d = Inr p"
    by (auto simp: approve_def split: sum.splits)
  then have found: "findById_payment pid d = Some p" and offl: "paymentMethod p = Offline"
    and owner: "user_role actor \<noteq> Superadmin \<Longrightarrow>
       map_option instructor (findById_course (pay_course p) d) = Some (user_id actor)"
    by (auto simp: manual_guards_def split: option.splits if_splits)
  let ?q = "payment_approve now1 (user_id actor) p"
  let ?d1 = "save_payment ?q d"
  from assms adm g obtain st :: user where
    "enroll_offline now1 (user_id st) (findById_course (pay_course p) d) ?d1 = (None, d')"
    by (auto simp: approve_def Let_def split: option.splits prod.splits)
  then have d': "d' = snd (enroll_offline now1 (user_id st) (findById_course (pay_course p) d) ?d1)"
    by simp
  have "findById_payment pid ?d1 = Some ?q"
    using found by (rule findById_payment_save) (simp add: payment_approve_def)
  then have found': "findById_payment pid d' = Some ?q"
    unfolding d' by (simp add: findById_payment_cong[OF payments_enroll_offline])
  have "map (\<lambda>c. (course_id c, instructor c)) (courses d')
          = map (\<lambda>c. (course_id c, instructor c)) (courses d)"
    unfolding d' by (simp add: instructors_enroll_offline)
  then have same: "map_option instructor (findById_course i d')
                     = map_option instructor (findById_course i d)" for i
    by (simp add: findById_course_def instructor_lookup)
  have q: "pay_course ?q = pay_course p" "paymentMethod ?q = Offline" "status ?q = Completed"
    using offl by (simp_all add: payment_approve_def)
  have "manual_guards ''approve'' ''approved'' actor pid d'
          = Inl (Status 400 ''Payment is not in pending status'')"
  proof (cases "user_role actor = Superadmin")
    case True
    with found' q show ?thesis by (simp add: manual_guards_def)
  next
    case False
    from owner[OF False] same[of "pay_course p"]
    have "map_option instructor (findById_course (pay_course p) d') = Some (user_id actor)"
      by simp
    with False found' q show ?thesis by (auto simp: manual_guards_def)
  qed
  with adm show ?thesis by (simp add: approve_def)
qed

lemma verify_A_lookup:
  "verify_lookup student1 ''order_A'' ''pay_A'' ''hmac:order_A|pay_A'' db_pending
     = Inr (pay_pending, Some course10)"
  by (simp add: verify_lookup_def requireStudent_def findById_course_def
      db_pending_def db0_def pay_pending_def new_payment_def student1_def course10_def)

lemma verify_A_settle:
  "verify_settle demo_hmac 5000 student1 ''order_A'' ''pay_A'' ''hmac:order_A|pay_A''
      (pay_pending, Some course10) db_pending
     = (Inr 1, db_verified_once)"
  by (simp add: verify_settle_def verifyPaymentSignature_def enroll_online_def
      findById_user_def save_payment_def save_user_def inc_enrollmentCount_def Let_def
      demo_hmac_def db_pending_def db0_def db_verified_once_def pay_verified_def
      enrollment_online_def pay_pending_def new_payment_def student1_def admin2_def course10_def)

lemma verify_A_settle_again:
  "verify_settle demo_hmac 5000 student1 ''order_A'' ''pay_A'' ''hmac:order_A|pay_A''
      (pay_pending, Some course10) db_verified_once
     = (Inr 1, db_verified_twice)"
  by (simp add: verify_settle_def verifyPaymentSignature_def enroll_online_def
      findById_user_def save_payment_def save_user_def inc_enrollmentCount_def Let_def
      demo_hmac_def db_verified_twice_def db_verified_once_def pay_verified_def
      enrollment_online_def pay_pending_def new_payment_def student1_def admin2_def course10_def)

lemma verify_A_fields:
  "ver_user verify_A = student1" "ver_orderId verify_A = ''order_A''"
  "ver_paymentId verify_A = ''pay_A''" "ver_signature verify_A = ''hmac:order_A|pay_A''"
  "ver_now verify_A = 5000"
  by (simp_all add: verify_A_def)

text \<open>Handled after the first verification has finished, the second one is answered 404.\<close>

lemma verify_A_after_itself:
  "verify demo_hmac 5000 student1 ''order_A'' ''pay_A'' ''hmac:order_A|pay_A'' db_verified_once
     = (Inl (Status 404 ''Payment record not found''), db_verified_once)"
  by (simp add: verify_def verify_lookup_def requireStudent_def db_verified_once_def
      pay_verified_def pay_pending_def new_payment_def student1_def)

text \<open>
  C4 fails on the code. The verification of order A arrives twice and the two requests
  overlap: both find the pending payment before either saves it. The online settlement
  (lines 163--175) has no check for an existing enrollment, unlike the approval's (lines
  445--466): the student ends with two enrollments of course 10 and the course's
  \<open>enrollmentCount\<close> is 2, where one verification gives one enrollment and the count 1.
\<close>

theorem overlapping_verify_enrolls_twice:
  "run (verify_step demo_hmac) [verify_A, verify_A] [0, 1, 0, 1] ([VerStart, VerStart], db_pending)
     = ([VerDone (Inr 1), VerDone (Inr 1)], db_verified_twice)
   \<and> map_option (\<lambda>u. map enr_course (enrolledCourses u)) (findById_user 1 db_verified_twice)
       = Some [10, 10]
   \<and> map_option enrollmentCount (findById_course 10 db_verified_twice) = Some 2
   \<and> verify demo_hmac 5000 student1 ''order_A'' ''pay_A'' ''hmac:order_A|pay_A'' db_pending
       = (Inr 1, db_verified_once)
   \<and> map_option enrollmentCount (findById_course 10 db_verified_once) = Some 1"
  by (simp add: verify_def verify_A_fields verify_A_lookup verify_A_settle verify_A_settle_again)
     (simp add: findById_user_def findById_course_def db_verified_twice_def
        db_verified_once_def student1_def course10_def enrollment_online_def)

section \<open>Properties of the test handlers\<close>

text \<open>The binary digits of a numeral, one division at a time.\<close>

lemma floorlog_0 [simp]: "floorlog 2 0 = 0"
  by (simp add: floorlog_def)

lemma floorlog_1 [simp]: "floorlog 2 (Suc 0) = Suc 0"
  by (subst compute_floorlog) simp

lemma floorlog_numeral [simp]:
  "floorlog 2 (numeral k) = Suc (floorlog 2 (numeral k div 2))"
  by (subst compute_floorlog) simp

lemmas percentage_defs =
  route_percentage_def presave_percentage_def js_div_def nearest_double_def round_half_even_def

lemmas test_example_defs =
  student1_def admin2_def student_enrolled_def course10_def question1_def question5_def
  test100_def test_future_def test100_flipped_def test100_renumbered_def db_tests_def
  answer_right_def
  sub100_def body_questions_def

lemmas submit_defs =
  submit_def submit_load_def submit_grade_def submit_create_def TestResult_create_def
  requireStudent_def findById_test_def findById_course_def hasPurchasedCourse_def isActive_def
  getAttemptCount_def fresh_id_def

subsection \<open>Grading\<close>

text \<open>The loop's total is the sum of the marks that the answers earn.\<close>

lemma grade_loop_sum:
  "grade_loop qs as m g = Inr (m', g') \<Longrightarrow> m' = m + sum_list (map (answer_marks qs) as)"
proof (induction as arbitrary: m g)
  case Nil
  then show ?case by simp
next
  case (Cons a as)
  from Cons.prems show ?case
    by (auto simp: answer_marks_def Let_def split: option.splits if_splits dest!: Cons.IH)
qed

lemma grade_loop_replicate:
  assumes "find (\<lambda>q. q_id q = ans_questionId a) qs = Some q"
    and "find (\<lambda>opt. opt_id opt = ans_selectedOption a) (q_options q) = Some opt"
    and "isCorrect opt"
  shows "\<exists>g'. grade_loop qs (replicate k a) m g = Inr (m + k * marks q, g')"
proof (induction k arbitrary: m g)
  case 0
  show ?case by simp
next
  case (Suc k)
  let ?ga = "\<lparr>ga_questionId = ans_questionId a, ga_selectedOption = ans_selectedOption a,
              ga_isCorrect = True, ga_marksObtained = marks q,
              ga_timeTaken = (case ans_timeTaken a of None \<Rightarrow> 0 | Some s \<Rightarrow> s)\<rparr>"
  from Suc.IH[of "m + marks q" "g @ [?ga]"] obtain g'
    where "grade_loop qs (replicate k a) (m + marks q) (g @ [?ga])
             = Inr (m + marks q + k * marks q, g')" by blast
  with assms show ?case by (simp add: Let_def ac_simps)
qed

lemma Math_round_not_NaN: "x \<noteq> NaN \<Longrightarrow> Math_round x \<noteq> NaN"
  by (cases x) simp_all

lemma route_percentage_not_NaN: "0 < t \<Longrightarrow> route_percentage m t \<noteq> NaN"
  by (simp add: route_percentage_def js_div_def nearest_double_def Let_def Math_round_not_NaN)

text \<open>Scenario A of the specification: 3 marks of 5 are 60 percent.\<close>

lemma percentage_3_of_5: "route_percentage 3 5 = Num 60"
  by (simp add: percentage_defs Let_def)

text \<open>The quotient and the product are rounded as doubles: 29 of 200 gives 14, not 15.\<close>

lemma percentage_29_of_200: "route_percentage 29 200 = Num 14"
  by (simp add: percentage_defs Let_def)

text \<open>
  What a successful submission answers: the marks are the sum over the answers, the
  percentage is the route's, and the pass status compares the marks with \<open>passingMarks\<close>.
\<close>

lemma submit_graded:
  assumes "submit s d = (Inr resp, d')"
  shows "\<exists>t. findById_test (sub_test s) d = Some t
           \<and> sr_marksObtained resp = sum_list (map (answer_marks (questions t)) (sub_answers s))
           \<and> sr_percentage resp = route_percentage (sr_marksObtained resp) (totalMarks t)
           \<and> sr_isPassed resp = (passingMarks t \<le> int (sr_marksObtained resp))"
proof -
  from assms obtain t where l: "submit_load s d = Inr t"
    by (auto simp: submit_def split: sum.splits)
  with assms obtain g where g: "submit_grade s t d = Inr g"
    by (auto simp: submit_def split: sum.splits)
  from l have t: "findById_test (sub_test s) d = Some t"
    by (auto simp: submit_load_def split: option.splits if_splits)
  from g obtain ga where gl: "grade_loop (questions t) (sub_answers s) 0 [] = Inr (gr_marksObtained g, ga)"
    and pc: "gr_percentage g = route_percentage (gr_marksObtained g) (totalMarks t)"
    and ps: "gr_isPassed g = (passingMarks t \<le> int (gr_marksObtained g))"
    by (auto simp: submit_grade_def Let_def split: if_splits sum.splits)
  from assms l g have "sr_marksObtained resp = gr_marksObtained g
      \<and> sr_percentage resp = gr_percentage g \<and> sr_isPassed resp = gr_isPassed g"
    by (auto simp: submit_def submit_create_def split: prod.splits sum.splits)
  with t pc ps grade_loop_sum[OF gl] show ?thesis by simp
qed

subsection \<open>The totals of the stored tests\<close>

text \<open>
  Every handler that writes tests keeps the totals positive: POST / and POST /generate
  store a test with at least one question of at least one mark and the total that the
  save hook computes, PUT /:id leaves the total as it is, DELETE /:id removes a test, and a
  submission writes no test.
\<close>

lemma positive_totals_empty: "tests d = [] \<Longrightarrow> positive_totals d"
  by (simp add: positive_totals_def)

lemma foldl_marks: "foldl (\<lambda>tot q. tot + marks q) n qs = n + sum_list (map marks qs)"
  by (induction qs arbitrary: n) simp_all

lemma length_new_questions [simp]: "length (new_questions i bs) = length bs"
  by (induction bs arbitrary: i) simp_all

lemma Test_create_positive:
  assumes "questions t \<noteq> []" and "list_all question_valid (questions t)"
    and "positive_totals d"
  shows "positive_totals (snd (Test_create t d))"
proof -
  from assms(1) obtain q qs where qs: "questions t = q # qs" by (cases "questions t") auto
  with assms(2) have "1 \<le> marks q" by (simp add: question_valid_def)
  with qs assms(3) show ?thesis
    by (simp add: Test_create_def test_presave_def positive_totals_def foldl_marks Let_def)
qed

lemma create_test_cases:
  "snd (create_test req_user body d) = d
   \<or> (create_body_valid body \<and> Test_validate (create_doc req_user body d)
      \<and> snd (create_test req_user body d) = snd (Test_create (create_doc req_user body d) d))"
  by (simp add: create_test_def split: option.splits prod.splits)

lemma create_test_positive:
  assumes "positive_totals d"
  shows "positive_totals (snd (create_test req_user body d))"
  using create_test_cases[of req_user body d]
proof
  assume "snd (create_test req_user body d) = d"
  with assms show ?thesis by simp
next
  assume c: "create_body_valid body \<and> Test_validate (create_doc req_user body d)
      \<and> snd (create_test req_user body d) = snd (Test_create (create_doc req_user body d) d)"
  then have "create_body_valid body" by simp
  then have "tb_questions body \<noteq> []" by (auto simp: create_body_valid_def)
  moreover have "length (questions (create_doc req_user body d)) = length (tb_questions body)"
    by (simp add: create_doc_def)
  ultimately have "questions (create_doc req_user body d) \<noteq> []" by auto
  moreover from c have "list_all question_valid (questions (create_doc req_user body d))"
    by (simp add: Test_validate_def)
  ultimately have "positive_totals (snd (Test_create (create_doc req_user body d) d))"
    using assms by (rule Test_create_positive)
  with c show ?thesis by simp
qed

lemma generate_test_cases:
  "snd (generate_test req_user body d) = d
   \<or> (1 \<le> gb_numQuestions body \<and> Test_validate (generate_doc req_user body d)
      \<and> snd (generate_test req_user body d) = snd (Test_create (generate_doc req_user body d) d))"
  by (simp add: generate_test_def split: option.splits prod.splits)

lemma generate_test_positive:
  assumes "positive_totals d"
  shows "positive_totals (snd (generate_test req_user body d))"
  using generate_test_cases[of req_user body d]
proof
  assume "snd (generate_test req_user body d) = d"
  with assms show ?thesis by simp
next
  assume c: "1 \<le> gb_numQuestions body \<and> Test_validate (generate_doc req_user body d)
      \<and> snd (generate_test req_user body d) = snd (Test_create (generate_doc req_user body d) d)"
  then have "1 \<le> gb_numQuestions body" by simp
  moreover have "length (questions (generate_doc req_user body d)) = gb_numQuestions body"
    by (simp add: generate_doc_def Let_def)
  ultimately have "questions (generate_doc req_user body d) \<noteq> []" by auto
  moreover from c have "list_all question_valid (questions (generate_doc req_user body d))"
    by (simp add: Test_validate_def)
  ultimately have "positive_totals (snd (Test_create (generate_doc req_user body d) d))"
    using assms by (rule Test_create_positive)
  with c show ?thesis by simp
qed

lemma update_first_all:
  "list_all P xs \<Longrightarrow> (\<And>x. P x \<Longrightarrow> P (f x)) \<Longrightarrow> list_all P (update_first Q f xs)"
  by (induction xs) simp_all

lemma totalMarks_set_field:
  "(\<And>x t. totalMarks (f x t) = totalMarks t) \<Longrightarrow> totalMarks (set_field v f t) = totalMarks t"
  by (cases v) (simp_all add: set_field_def)

lemma totalMarks_apply_allowed: "totalMarks (apply_allowed body t) = totalMarks t"
  by (simp add: apply_allowed_def totalMarks_set_field)

lemma update_test_positive:
  assumes "positive_totals d"
  shows "positive_totals (snd (update_test req_user testId body d))"
  using assms
  by (auto simp: update_test_def positive_totals_def findByIdAndUpdate_test_def Let_def
      totalMarks_set_field totalMarks_apply_allowed
      split: option.splits intro!: update_first_all)

lemma delete_first_all: "list_all P xs \<Longrightarrow> list_all P (delete_first Q xs)"
  by (induction xs) simp_all

lemma delete_test_positive:
  assumes "positive_totals d"
  shows "positive_totals (snd (delete_test req_user testId d))"
  using assms
  by (auto simp: delete_test_def positive_totals_def findByIdAndDelete_test_def
      deleteMany_results_def Let_def split: option.splits intro: delete_first_all)

lemma submit_tests: "tests (snd (submit s d)) = tests d"
  by (auto simp: submit_def submit_create_def TestResult_create_def Let_def
      split: sum.splits prod.splits if_splits)

subsection \<open>C2: attempt numbers and the attempt limit\<close>

lemma attempt_numbers_length:
  "length (attempt_numbers T S d) = getAttemptCount T S d"
  by (simp add: attempt_numbers_def getAttemptCount_def)

lemma key_taken_iff:
  "list_ex (\<lambda>x. tr_test x = T \<and> tr_student x = S \<and> attemptNumber x = k) (testResults d)
     \<longleftrightarrow> k \<in> set (attempt_numbers T S d)"
  by (auto simp: attempt_numbers_def list_ex_iff)

lemma gap_free_empty: "testResults d = [] \<Longrightarrow> gap_free d"
  by (simp add: gap_free_def attempt_numbers_def getAttemptCount_def)

lemma gap_free_taken:
  "gap_free d \<Longrightarrow> k \<in> set (attempt_numbers T S d) \<longleftrightarrow> 1 \<le> k \<and> k \<le> getAttemptCount T S d"
  by (auto simp: gap_free_def)

lemma attempt_numbers_append:
  "attempt_numbers T S (d\<lparr>testResults := testResults d @ [r]\<rparr>)
     = attempt_numbers T S d @ (if tr_test r = T \<and> tr_student r = S then [attemptNumber r] else [])"
  by (simp add: attempt_numbers_def)

lemma getAttemptCount_append:
  "getAttemptCount T S (d\<lparr>testResults := testResults d @ [r]\<rparr>)
     = getAttemptCount T S d + (if tr_test r = T \<and> tr_student r = S then 1 else 0)"
  by (simp add: getAttemptCount_def)

lemma gap_free_append:
  assumes "gap_free d"
    and "attemptNumber r = Suc (getAttemptCount (tr_test r) (tr_student r) d)"
  shows "gap_free (d\<lparr>testResults := testResults d @ [r]\<rparr>)"
  unfolding gap_free_def
proof (intro allI)
  fix T S
  show "attempt_numbers T S (d\<lparr>testResults := testResults d @ [r]\<rparr>)
          = [1 ..< Suc (getAttemptCount T S (d\<lparr>testResults := testResults d @ [r]\<rparr>))]"
    using assms by (simp add: attempt_numbers_append getAttemptCount_append gap_free_def)
qed

lemma findById_test_id: "findById_test i d = Some t \<Longrightarrow> test_id t = i"
  unfolding findById_test_def by (induction "tests d" arbitrary: d) (auto dest: find_Some_pred)

lemma submit_load_test:
  "submit_load s d = Inr t \<Longrightarrow> findById_test (sub_test s) d = Some t"
  by (auto simp: submit_load_def split: option.splits if_splits)

lemma submit_grade_count:
  "submit_grade s t d = Inr g \<Longrightarrow>
   gr_attemptCount g = getAttemptCount (test_id t) (user_id (sub_user s)) d
   \<and> gr_attemptCount g < maxAttempts t"
  by (auto simp: submit_grade_def Let_def split: if_splits sum.splits)

lemma submit_create_cases:
  assumes "submit_create s t g d = (res, d')"
  shows "(d' = d \<and> (\<exists>e. res = Inl (Next e)))
       \<or> (appended s t g d d' \<and> (\<exists>resp. res = Inr resp \<and> sr_attemptNumber resp = gr_attemptCount g + 1))"
  using assms
  unfolding submit_create_def TestResult_create_def appended_def key_taken_iff[symmetric]
  by (auto simp: Let_def split: if_splits)

lemma appended_gap_free:
  assumes app: "appended s t g d d'" and gf: "gap_free d"
    and le: "gr_attemptCount g \<le> getAttemptCount (test_id t) (user_id (sub_user s)) d"
  shows "gap_free d'
     \<and> getAttemptCount (test_id t) (user_id (sub_user s)) d' = gr_attemptCount g + 1
     \<and> gr_attemptCount g = getAttemptCount (test_id t) (user_id (sub_user s)) d"
proof -
  let ?T = "test_id t" and ?S = "user_id (sub_user s)"
  from app obtain r where d': "d' = d\<lparr>testResults := testResults d @ [r]\<rparr>"
    and key: "tr_test r = ?T" "tr_student r = ?S"
    and num: "attemptNumber r = gr_attemptCount g + 1"
    and free: "gr_attemptCount g + 1 \<notin> set (attempt_numbers ?T ?S d)"
    unfolding appended_def by blast
  from free gf have "\<not> gr_attemptCount g + 1 \<le> getAttemptCount ?T ?S d"
    by (simp add: gap_free_taken)
  with le have eq: "gr_attemptCount g = getAttemptCount ?T ?S d" by simp
  have "gap_free d'"
    unfolding d' using gf by (rule gap_free_append) (simp add: key num eq)
  moreover have "getAttemptCount ?T ?S d' = gr_attemptCount g + 1"
    unfolding d' by (simp add: getAttemptCount_append key eq)
  ultimately show ?thesis using eq by simp
qed

lemma appended_frame:
  "appended s t g d d' \<Longrightarrow> tests d' = tests d \<and> courses d' = courses d
     \<and> getAttemptCount T S d \<le> getAttemptCount T S d'"
  unfolding appended_def by (auto simp: getAttemptCount_append)

lemma task_inv_mono:
  assumes "task_inv s k d"
    and "\<And>T S. getAttemptCount T S d \<le> getAttemptCount T S d'"
  shows "task_inv s k d'"
proof (cases k)
  case (SubGraded t g)
  with assms(1) have "gr_attemptCount g \<le> getAttemptCount (test_id t) (user_id (sub_user s)) d"
    by (simp add: task_inv_def)
  with assms(2)[of "test_id t" "user_id (sub_user s)"] SubGraded show ?thesis
    by (simp add: task_inv_def)
qed (simp_all add: task_inv_def)

lemma submit_step_inv:
  assumes gf: "gap_free d" and ti: "task_inv s k d"
    and step: "submit_step s k d = (k', d')"
  shows "gap_free d' \<and> task_inv s k' d'
       \<and> (\<forall>T S. getAttemptCount T S d \<le> getAttemptCount T S d')"
proof (cases k)
  case SubStart
  with step gf show ?thesis by (auto simp: task_inv_def split: sum.splits)
next
  case (SubLoaded t)
  with step gf show ?thesis
    by (auto simp: task_inv_def split: sum.splits dest!: submit_grade_count)
next
  case (SubGraded t g)
  with ti have b: "gr_attemptCount g \<le> getAttemptCount (test_id t) (user_id (sub_user s)) d"
    by (simp add: task_inv_def)
  from step SubGraded obtain res where sc: "submit_create s t g d = (res, d')"
    and k': "k' = SubDone res"
    by (auto split: prod.splits)
  from submit_create_cases[OF sc] show ?thesis
  proof
    assume "d' = d \<and> (\<exists>e. res = Inl (Next e))"
    with gf k' show ?thesis by (simp add: task_inv_def)
  next
    assume "appended s t g d d'
       \<and> (\<exists>resp. res = Inr resp \<and> sr_attemptNumber resp = gr_attemptCount g + 1)"
    then have app: "appended s t g d d'" by simp
    from appended_gap_free[OF app gf b] have "gap_free d'" by simp
    with appended_frame[OF app] k' show ?thesis
      by (simp add: task_inv_def)
  qed
next
  case (SubDone r)
  with step gf show ?thesis by (auto simp: task_inv_def)
qed

lemma run_submit_inv:
  "config_inv subs (ks, d) \<Longrightarrow> config_inv subs (run submit_step subs sched (ks, d))"
proof (induction sched arbitrary: ks d)
  case Nil
  then show ?case by simp
next
  case (Cons i sched)
  show ?case
  proof (cases "i < length subs \<and> i < length ks")
    case False
    with Cons show ?thesis by auto
  next
    case True
    obtain k' d' where st: "submit_step (subs ! i) (ks ! i) d = (k', d')"
      by (cases "submit_step (subs ! i) (ks ! i) d") auto
    from Cons.prems have gf: "gap_free d"
      and all: "\<And>j. j < length ks \<Longrightarrow> j < length subs \<Longrightarrow> task_inv (subs ! j) (ks ! j) d"
      by (simp_all add: config_inv_def)
    from submit_step_inv[OF gf all[of i] st] True
    have gf': "gap_free d'" and ti': "task_inv (subs ! i) k' d'"
      and mono: "\<And>T S. getAttemptCount T S d \<le> getAttemptCount T S d'"
      by simp_all
    have "config_inv subs (ks[i := k'], d')"
      unfolding config_inv_def
    proof (intro conjI allI impI)
      fix j
      assume j: "j < length (fst (ks[i := k'], d')) \<and> j < length subs"
      show "task_inv (subs ! j) (fst (ks[i := k'], d') ! j) (snd (ks[i := k'], d'))"
      proof (cases "j = i")
        case True
        with ti' j show ?thesis by simp
      next
        case False
        from j have "task_inv (subs ! j) (ks ! j) d" by (intro all) simp_all
        then have "task_inv (subs ! j) (ks ! j) d'"
          by (rule task_inv_mono) (simp add: mono)
        with False show ?thesis by simp
      qed
    qed (simp add: gf')
    from Cons.IH[OF this] True st show ?thesis by simp
  qed
qed

lemma submit_quota_exhausted:
  "submit_load s d = Inr t \<Longrightarrow>
   maxAttempts t \<le> getAttemptCount (test_id t) (user_id (sub_user s)) d \<Longrightarrow>
   submit s d = (Inl (Status 400 ''Maximum attempts exceeded''), d)"
  by (simp add: submit_def submit_grade_def Let_def)

lemma submit_load_cong:
  "tests d' = tests d \<Longrightarrow> courses d' = courses d \<Longrightarrow> submit_load s d' = submit_load s d"
  by (simp add: submit_load_def findById_test_def findById_course_def
      cong: option.case_cong if_cong)

lemma submit_next_attempt:
  assumes load: "submit_load s d = Inr t"
    and quota: "getAttemptCount (test_id t) (user_id (sub_user s)) d < maxAttempts t"
    and graded: "\<not> isl (grade_loop (questions t) (sub_answers s) 0 [])"
    and tot: "0 < totalMarks t"
    and gf: "gap_free d"
  shows "\<exists>resp d'. submit s d = (Inr resp, d')
           \<and> sr_attemptNumber resp = getAttemptCount (test_id t) (user_id (sub_user s)) d + 1
           \<and> getAttemptCount (test_id t) (user_id (sub_user s)) d'
               = getAttemptCount (test_id t) (user_id (sub_user s)) d + 1
           \<and> gap_free d' \<and> tests d' = tests d \<and> courses d' = courses d"
proof -
  let ?n = "getAttemptCount (test_id t) (user_id (sub_user s)) d"
  from graded obtain m ga where gl: "grade_loop (questions t) (sub_answers s) 0 [] = Inr (m, ga)"
    by (cases "grade_loop (questions t) (sub_answers s) 0 []") auto
  define g where "g = \<lparr>gr_attemptCount = ?n, gr_answers = ga, gr_marksObtained = m,
     gr_percentage = route_percentage m (totalMarks t),
     gr_isPassed = (passingMarks t \<le> int m)\<rparr>"
  have grade: "submit_grade s t d = Inr g"
    using quota gl by (simp add: submit_grade_def Let_def g_def)
  have cnt: "gr_attemptCount g = ?n" by (simp add: g_def)
  obtain res d' where sc: "submit_create s t g d = (res, d')"
    by (cases "submit_create s t g d") auto
  have free: "?n + 1 \<notin> set (attempt_numbers (test_id t) (user_id (sub_user s)) d)"
    using gf by (simp add: gap_free_taken)
  have nn: "gr_percentage g \<noteq> NaN"
    using tot by (simp add: g_def route_percentage_not_NaN)
  from sc nn free cnt have "\<not> (\<exists>e. res = Inl (Next e))"
    unfolding submit_create_def TestResult_create_def key_taken_iff
    by (auto simp: Let_def split: if_splits)
  with submit_create_cases[OF sc] obtain resp where app: "appended s t g d d'"
    and res: "res = Inr resp" and num: "sr_attemptNumber resp = gr_attemptCount g + 1"
    by blast
  from appended_gap_free[OF app gf] cnt appended_frame[OF app]
  have "gap_free d'" "getAttemptCount (test_id t) (user_id (sub_user s)) d' = ?n + 1"
    "tests d' = tests d" "courses d' = courses d"
    by simp_all
  moreover have "submit s d = (Inr resp, d')"
    using load grade sc res by (simp add: submit_def)
  ultimately show ?thesis using num cnt by simp
qed

lemma submit_all_outcomes:
  assumes "\<forall>s \<in> set seq. attempts_by uid t d s" and "gap_free d" and "0 < totalMarks t"
  shows "map attempt_result (fst (submit_all seq d))
           = quota_outcomes (maxAttempts t) (getAttemptCount (test_id t) uid d) (length seq)
       \<and> gap_free (snd (submit_all seq d))
       \<and> getAttemptCount (test_id t) uid (snd (submit_all seq d))
           = (if getAttemptCount (test_id t) uid d \<le> maxAttempts t
              then min (getAttemptCount (test_id t) uid d + length seq) (maxAttempts t)
              else getAttemptCount (test_id t) uid d)"
  using assms
proof (induction seq arbitrary: d)
  case Nil
  then show ?case by simp
next
  case (Cons s seq)
  let ?n = "getAttemptCount (test_id t) uid d"
  from Cons.prems(1) have s: "user_id (sub_user s) = uid" "submit_load s d = Inr t"
    "\<not> isl (grade_loop (questions t) (sub_answers s) 0 [])"
    and rest: "\<forall>x \<in> set seq. attempts_by uid t d x"
    by (simp_all add: attempts_by_def)
  show ?case
  proof (cases "?n < maxAttempts t")
    case False
    then have "submit s d = (Inl (Status 400 ''Maximum attempts exceeded''), d)"
      using submit_quota_exhausted[OF s(2)] s(1) by simp
    with False Cons.IH[OF rest Cons.prems(2,3)] show ?thesis
      by (auto simp: attempt_result_def split: prod.splits)
  next
    case True
    from submit_next_attempt[OF s(2) _ s(3) Cons.prems(3,2)] True s(1)
    obtain resp d' where sub: "submit s d = (Inr resp, d')"
      and num: "sr_attemptNumber resp = ?n + 1"
      and cnt: "getAttemptCount (test_id t) uid d' = ?n + 1"
      and gf': "gap_free d'" and fr: "tests d' = tests d" "courses d' = courses d"
      by auto
    have rest': "\<forall>x \<in> set seq. attempts_by uid t d' x"
      using rest by (simp add: attempts_by_def submit_load_cong[OF fr])
    from Cons.IH[OF rest' gf' Cons.prems(3)] sub num cnt True show ?thesis
      by (auto simp: attempt_result_def split: prod.splits)
  qed
qed

lemma quota_outcomes_from:
  "used \<le> limit \<Longrightarrow>
   quota_outcomes limit used (limit - used + k)
     = map Inr [used + 1 ..< Suc limit] @ replicate k (Inl (Status 400 ''Maximum attempts exceeded''))"
proof (induction "limit - used" arbitrary: used)
  case 0
  then have "used = limit" by simp
  then show ?case by (induction k) simp_all
next
  case (Suc n)
  then have lt: "used < limit" and n: "n = limit - (used + 1)" by simp_all
  from Suc.hyps(1)[OF n] lt
  have "quota_outcomes limit (used + 1) (limit - (used + 1) + k)
      = map Inr [used + 1 + 1 ..< Suc limit] @ replicate k (Inl (Status 400 ''Maximum attempts exceeded''))"
    by simp
  moreover from lt have "limit - used + k = Suc (limit - (used + 1) + k)" by simp
  moreover from lt have "[used + 1 ..< Suc limit] = (used + 1) # [used + 1 + 1 ..< Suc limit]"
    by (simp add: upt_conv_Cons)
  ultimately show ?case using lt by simp
qed

lemma attempts_by_total:
  assumes "attempts_by uid t d s" and "positive_totals d"
  shows "0 < totalMarks t"
proof -
  from assms(1) have "findById_test (sub_test s) d = Some t"
    by (simp add: attempts_by_def submit_load_test)
  then have "t \<in> set (tests d)"
    by (auto simp: findById_test_def find_Some_iff)
  with assms(2) show ?thesis by (simp add: positive_totals_def list_all_iff)
qed

text \<open>
  C2, as amended. While results are written by submissions only, the attempt numbers stay
  gap-free: from a database in which the attempt numbers of every test and student are
  \<open>1, ..., n\<close> in the order of creation (an empty collection of results is one), every
  interleaving of the steps of any submissions leaves them so. A submission that finds
  the limit reached is answered 400 \<^verbatim>\<open>Maximum attempts exceeded\<close> and changes nothing.
  When \<open>maxAttempts + k\<close> submissions of a student without attempts, each passing the
  checks of the handler and naming questions and options of the test, are handled one
  after another, the first \<open>maxAttempts\<close> succeed with the numbers \<open>1, ..., maxAttempts\<close> and
  the last \<open>k\<close> are refused in this way; the totals of the stored tests are positive, as
  every handler leaves them. (Submissions that overlap can also fail on the unique index,
  so that fewer succeed, as the counterexample below shows.)
\<close>

theorem attempts_numbered_from_one:
  assumes gf: "gap_free d0" and pos: "positive_totals d0"
    and seq: "\<forall>s \<in> set seq. attempts_by uid t d0 s"
    and zero: "getAttemptCount (test_id t) uid d0 = 0"
    and len: "length seq = maxAttempts t + k"
  shows "gap_free (snd (run submit_step subs sched (replicate (length subs) SubStart, d0)))
     \<and> (\<forall>s d t'. submit_load s d = Inr t'
            \<and> maxAttempts t' \<le> getAttemptCount (test_id t') (user_id (sub_user s)) d
          \<longrightarrow> submit s d = (Inl (Status 400 ''Maximum attempts exceeded''), d))
     \<and> map attempt_result (fst (submit_all seq d0))
         = map Inr [1 ..< Suc (maxAttempts t)]
           @ replicate k (Inl (Status 400 ''Maximum attempts exceeded''))
     \<and> attempt_numbers (test_id t) uid (snd (submit_all seq d0)) = [1 ..< Suc (maxAttempts t)]"
proof -
  have "config_inv subs (replicate (length subs) SubStart, d0)"
    using gf by (simp add: config_inv_def task_inv_def)
  then have "config_inv subs (run submit_step subs sched (replicate (length subs) SubStart, d0))"
    by (rule run_submit_inv)
  then have overlap:
    "gap_free (snd (run submit_step subs sched (replicate (length subs) SubStart, d0)))"
    by (simp add: config_inv_def)
  have one_by_one: "map attempt_result (fst (submit_all seq d0))
      = map Inr [1 ..< Suc (maxAttempts t)]
        @ replicate k (Inl (Status 400 ''Maximum attempts exceeded''))"
    and nums:
      "attempt_numbers (test_id t) uid (snd (submit_all seq d0)) = [1 ..< Suc (maxAttempts t)]"
  proof -
    show "map attempt_result (fst (submit_all seq d0))
      = map Inr [1 ..< Suc (maxAttempts t)]
        @ replicate k (Inl (Status 400 ''Maximum attempts exceeded''))"
    proof (cases seq)
      case Nil
      with len show ?thesis by simp
    next
      case (Cons s ss)
      with seq pos have tot: "0 < totalMarks t" by (auto intro: attempts_by_total)
      from submit_all_outcomes[OF seq gf tot] zero len
      have "map attempt_result (fst (submit_all seq d0))
               = quota_outcomes (maxAttempts t) 0 (maxAttempts t - 0 + k)"
        by simp
      with quota_outcomes_from[of 0 "maxAttempts t" k] show ?thesis by simp
    qed
    show "attempt_numbers (test_id t) uid (snd (submit_all seq d0)) = [1 ..< Suc (maxAttempts t)]"
    proof (cases seq)
      case Nil
      with len zero gf show ?thesis by (simp add: gap_free_def)
    next
      case (Cons s ss)
      with seq pos have tot: "0 < totalMarks t" by (auto intro: attempts_by_total)
      from submit_all_outcomes[OF seq gf tot] zero len
      have "gap_free (snd (submit_all seq d0))"
        and "getAttemptCount (test_id t) uid (snd (submit_all seq d0)) = maxAttempts t"
        by simp_all
      then show ?thesis by (simp add: gap_free_def)
    qed
  qed
  from overlap one_by_one nums show ?thesis
    by (auto intro: submit_quota_exhausted)
qed

lemma sub_right_attempts: "attempts_by 3 test100 db_tests sub_right"
  by (simp add: attempts_by_def submit_load_def requireStudent_def findById_test_def
      findById_course_def hasPurchasedCourse_def isActive_def sub_right_def sub100_def
      answer_right_def student_enrolled_def db_tests_def test100_def course10_def question1_def)

lemma db_tests_fresh:
  "gap_free db_tests \<and> positive_totals db_tests \<and> getAttemptCount 100 3 db_tests = 0"
  by (simp add: gap_free_empty positive_totals_def getAttemptCount_def db_tests_def
      test100_def test_future_def)

text \<open>
  The theorem at test 100 (\<open>maxAttempts = 2\<close>) and three submissions of student 3, one after
  another and overlapping.
\<close>

theorem attempts_numbered_from_one_witness:
  "gap_free db_tests \<and> positive_totals db_tests
   \<and> map attempt_result (fst (submit_all [sub_right, sub_right, sub_right] db_tests))
       = [Inr 1, Inr 2, Inl (Status 400 ''Maximum attempts exceeded'')]
   \<and> attempt_numbers 100 3 (snd (submit_all [sub_right, sub_right, sub_right] db_tests)) = [1, 2]
   \<and> gap_free (snd (run submit_step [sub_right, sub_right, sub_right]
                       [0, 1, 2, 0, 1, 2, 0, 1, 2] ([SubStart, SubStart, SubStart], db_tests)))"
proof -
  have t: "test_id test100 = 100" "maxAttempts test100 = 2"
    by (simp_all add: test100_def)
  have u: "[1 ..< Suc 2] = [1, 2]"
    by (simp add: upt_rec)
  have r: "replicate (length [sub_right, sub_right, sub_right]) SubStart
             = [SubStart, SubStart, SubStart]"
    by (simp add: numeral_3_eq_3)
  have seq: "\<forall>s \<in> set [sub_right, sub_right, sub_right]. attempts_by 3 test100 db_tests s"
    using sub_right_attempts by simp
  have len: "length [sub_right, sub_right, sub_right] = maxAttempts test100 + 1"
    by (simp add: t)
  have zero: "getAttemptCount (test_id test100) 3 db_tests = 0"
    using db_tests_fresh by (simp add: t)
  note at_test100 = attempts_numbered_from_one [of db_tests "[sub_right, sub_right, sub_right]" 3
      test100 1 "[sub_right, sub_right, sub_right]" "[0, 1, 2, 0, 1, 2, 0, 1, 2]",
      OF _ _ seq zero len, unfolded r t u]
  from db_tests_fresh have "gap_free db_tests" "positive_totals db_tests" by simp_all
  from at_test100[OF this] this show ?thesis
    by (simp del: run.simps submit_all.simps)
qed

lemma sub_right_load: "submit_step sub_right SubStart d = (SubLoaded test100, d)"
  if "tests d = tests db_tests" "courses d = courses db_tests" for d
  using that
  by (simp add: submit_load_def requireStudent_def findById_test_def findById_course_def
      hasPurchasedCourse_def isActive_def sub_right_def sub100_def student_enrolled_def
      db_tests_def test100_def course10_def)

lemma sub_right_grade:
  "submit_step sub_right (SubLoaded test100) db_tests = (SubGraded test100 grading_first, db_tests)"
  by (simp add: submit_grade_def getAttemptCount_def percentage_defs Let_def grading_first_def
      graded_right_def sub_right_def sub100_def answer_right_def student_enrolled_def
      db_tests_def test100_def question1_def)

lemma sub_right_create:
  "submit_step sub_right (SubGraded test100 grading_first) db_tests
     = (SubDone (Inr \<lparr>sr_id = 1, sr_marksObtained = 1, sr_totalMarks = 1, sr_percentage = Num 100,
          sr_isPassed = True, sr_timeTaken = 10, sr_attemptNumber = 1,
          sr_answers = Some [graded_right],
          sr_correctAnswers = Some [(1, [11], js ''addition'')]\<rparr>), db_one_attempt)"
  by (simp add: submit_create_def TestResult_create_def percentage_defs fresh_id_def Let_def
      grading_first_def db_one_attempt_def result_first_def
      graded_right_def sub_right_def sub100_def answer_right_def student_enrolled_def
      db_tests_def test100_def question1_def)

lemma sub_right_duplicate:
  "submit_step sub_right (SubGraded test100 grading_first) db_one_attempt
     = (SubDone (Inl (Next ''E11000 duplicate key error'')), db_one_attempt)"
  by (simp add: submit_create_def TestResult_create_def Let_def
      grading_first_def db_one_attempt_def result_first_def
      sub_right_def sub100_def student_enrolled_def db_tests_def test100_def)

text \<open>
  C2 as stated fails. Test 100 allows 2 attempts; three submissions of student 3 overlap so
  that each reads the attempt count 0 before any result is created. The first creation
  succeeds with number 1, the other two break the unique index: one Attempt instead of
  \<open>maxAttempts = 2\<close>, and two failures that are duplicate-key errors, not the refusal for
  an exhausted quota.
\<close>

theorem overlapping_submissions_counterexample:
  "maxAttempts test100 = 2
   \<and> map attempt_number_of
       (fst (run submit_step [sub_right, sub_right, sub_right] [0, 1, 2, 0, 1, 2, 0, 1, 2]
               ([SubStart, SubStart, SubStart], db_tests)))
     = [Inr 1, Inl (Next ''E11000 duplicate key error''), Inl (Next ''E11000 duplicate key error'')]
   \<and> getAttemptCount 100 3
       (snd (run submit_step [sub_right, sub_right, sub_right] [0, 1, 2, 0, 1, 2, 0, 1, 2]
               ([SubStart, SubStart, SubStart], db_tests))) = 1"
  by (simp del: submit_step.simps
      add: sub_right_load sub_right_grade sub_right_create sub_right_duplicate)
     (simp add: attempt_number_of_def getAttemptCount_def test100_def db_one_attempt_def
        result_first_def)

text \<open>
  DELETE /:id, handled alone, keeps the attempt numbers gap-free: the results of the test
  go together.
\<close>

lemma delete_test_gap_free:
  assumes "gap_free d"
  shows "gap_free (snd (delete_test req_user testId d))"
proof -
  have "gap_free (findByIdAndDelete_test i (deleteMany_results j d))" for i j
    unfolding gap_free_def
  proof (intro allI)
    fix T S
    show "attempt_numbers T S (findByIdAndDelete_test i (deleteMany_results j d))
      = [1 ..< Suc (getAttemptCount T S (findByIdAndDelete_test i (deleteMany_results j d)))]"
    proof (cases "T = j")
      case True
      then show ?thesis
        by (simp add: attempt_numbers_def getAttemptCount_def findByIdAndDelete_test_def
            deleteMany_results_def)
    next
      case False
      then have "filter (\<lambda>r. tr_test r = T \<and> tr_student r = S)
                   (filter (\<lambda>r. tr_test r \<noteq> j) (testResults d))
                 = filter (\<lambda>r. tr_test r = T \<and> tr_student r = S) (testResults d)"
        by (auto intro: filter_cong)
      with assms show ?thesis
        by (simp add: attempt_numbers_def getAttemptCount_def findByIdAndDelete_test_def
            deleteMany_results_def gap_free_def)
    qed
  qed
  with assms show ?thesis
    by (auto simp: delete_test_def Let_def split: option.splits)
qed

text \<open>
  The invariant is one of submissions: DELETE /:id removes the results of a test and then
  the test, and a submission that has read its count before goes on to create its result.
  Student 3 has attempt 1 of test 100 and a second submission is graded; admin 2 deletes
  the test; the submission then stores attempt 2, the only result of the student for the
  test that is no more.
\<close>

lemma delete_during_submission:
  "submit_step sub_right (SubLoaded test100) db_one_attempt
     = (SubGraded test100 grading_second, db_one_attempt)
   \<and> delete_test admin2 100 db_one_attempt = (None, db_deleted)
   \<and> snd (submit_step sub_right (SubGraded test100 grading_second) db_deleted)
       = db_deleted\<lparr>testResults := [result_second]\<rparr>
   \<and> attempt_numbers 100 3 (db_deleted\<lparr>testResults := [result_second]\<rparr>) = [2]"
  by (simp add: submit_grade_def submit_create_def TestResult_create_def delete_test_def
      requireAdmin_def findById_test_def findById_course_def deleteMany_results_def
      findByIdAndDelete_test_def getAttemptCount_def attempt_numbers_def percentage_defs
      fresh_id_def Let_def
      grading_second_def grading_first_def result_second_def db_deleted_def
      db_one_attempt_def result_first_def graded_right_def sub_right_def sub100_def
      answer_right_def student_enrolled_def admin2_def course10_def
      db_tests_def test100_def test_future_def question1_def)

subsection \<open>C3: marks, percentage and pass status\<close>

lemma percentage_23_of_40: "route_percentage 23 40 = Num 57 \<and> presave_percentage 23 40 = Num 57"
  by (simp add: percentage_defs Let_def)

lemma claimed_percentage_23_of_40: "claimed_percentage 23 40 = 58"
  by (simp add: claimed_percentage_def round_def)

lemma default_passingMarks_2: "default_passingMarks 2 = 2"
  by (simp add: default_passingMarks_def percentage_defs Let_def)

lemma default_passingMarks_two: "default_passingMarks (Suc (Suc 0)) = 2"
  using default_passingMarks_2 by (simp add: numeral_2_eq_2)

text \<open>POST / accepts the request for the test of 23 and 17 marks and stores it with the total 40.\<close>

lemma body_marks_valid: "create_body_valid body_marks"
  by (simp add: create_body_valid_def body_marks_def isLength_count_def trim_def is_space_def js_def)

lemma body_marks_doc:
  "create_doc admin2 body_marks db_tests = test_marks\<lparr>test_id := 0, totalMarks := 0\<rparr>"
  by (simp add: create_doc_def body_marks_def test_marks_def default_passingMarks_two object_ids_def
      fresh_id_def trim_def is_space_def js_def admin2_def db_tests_def test100_def test_future_def
      question1_def)

lemma body_marks_created:
  "create_test admin2 body_marks db_tests = (Inr test_marks, db_created)"
proof -
  have v: "Test_validate (create_doc admin2 body_marks db_tests)"
    by (simp add: body_marks_doc Test_validate_def question_valid_def utf16_length_def
        test_marks_def js_def)
  have c: "Test_create (create_doc admin2 body_marks db_tests) db_tests = (test_marks, db_created)"
    unfolding body_marks_doc
    by (simp add: Test_create_def test_presave_def fresh_id_def Let_def
        test_marks_def db_created_def db_tests_def test100_def test_future_def)
  have course: "findById_course (tb_courseId body_marks) db_tests = Some course10"
    by (simp add: findById_course_def body_marks_def db_tests_def course10_def)
  have loop: "correct_answer_loop 0 (tb_questions body_marks) = None"
    by (simp add: body_marks_def)
  have admin: "requireAdmin admin2 = None" "instructor course10 = user_id admin2"
    by (simp_all add: requireAdmin_def admin2_def course10_def)
  show ?thesis
    by (simp add: create_test_def body_marks_valid v c course loop admin)
qed

lemma test_marks_published:
  "update_test admin2 102 body_publish db_created
     = (Inr (test_marks\<lparr>isPublished := True\<rparr>), db_marks)"
  by (simp add: update_test_def requireAdmin_def update_body_valid_def update_schema_valid_def
      findById_test_def findById_course_def findByIdAndUpdate_test_def set_field_def
      apply_allowed_def Let_def body_publish_def db_created_def db_marks_def admin2_def
      course10_def db_tests_def test100_def test_future_def test_marks_def)

lemma sub_marks_submitted:
  "submit sub_marks db_marks
     = (Inr response_marks, db_marks\<lparr>testResults := [result_marks]\<rparr>)"
  by (simp add: submit_def submit_load_def submit_grade_def submit_create_def
      TestResult_create_def requireStudent_def findById_test_def findById_course_def
      hasPurchasedCourse_def isActive_def getAttemptCount_def fresh_id_def Let_def
      percentage_23_of_40
      sub_marks_def response_marks_def result_marks_def graded_marks_def db_marks_def
      student_enrolled_def course10_def db_tests_def test100_def test_future_def test_marks_def)

text \<open>
  C3 fails on the code. Admin 2 creates a test of two questions, of 23 and 17 marks, which
  POST / stores with the total 40, and publishes it; the enrolled student answers the first
  question rightly and the second wrongly. The marks are 23 and the pass status is that
  of the claim, but the percentage is 57, in the answer and in the stored result, while
  \<open>23 / 40 \<times> 100 = 57.5\<close> rounds to 58: the route and the \<^verbatim>\<open>pre('save')\<close> hook compute
  \<^verbatim>\<open>Math.round((23 / 40) * 100)\<close> on doubles, the quotient is the double next below 0.575,
  its product with 100 is the double next below 57.5, and \<open>Math.round\<close> takes that down.
\<close>

theorem percentage_rounded_from_double:
  "create_test admin2 body_marks db_tests = (Inr test_marks, db_created)
   \<and> update_test admin2 102 body_publish db_created
       = (Inr (test_marks\<lparr>isPublished := True\<rparr>), db_marks)
   \<and> totalMarks test_marks = 40
   \<and> submit sub_marks db_marks = (Inr response_marks, db_marks\<lparr>testResults := [result_marks]\<rparr>)
   \<and> sr_marksObtained response_marks = 23
   \<and> sr_isPassed response_marks = (passingMarks test_marks \<le> 23)
   \<and> sr_percentage response_marks = Num 57
   \<and> tr_percentage result_marks = Num 57
   \<and> claimed_percentage 23 40 = 58"
  using body_marks_created test_marks_published sub_marks_submitted claimed_percentage_23_of_40
  by (simp add: response_marks_def result_marks_def test_marks_def)

text \<open>The percentage of that answer is not the one the specification gives.\<close>

theorem percentage_rounded_from_double_witness:
  "fst (submit sub_marks db_marks) = Inr response_marks
   \<and> sr_percentage response_marks \<noteq> Num (nat (claimed_percentage 23 40))"
  using percentage_rounded_from_double by simp

subsection \<open>C7: a test that has not started\<close>

text \<open>
  C7, as amended. When the test's \<open>startDate\<close> lies in the future, \<open>isActive\<close> is false and the
  submission is refused without any change, whatever the enrollment and the attempts
  used: with 403 \<^verbatim>\<open>Not authorized to take this test\<close> when the test is unpublished or the
  student has not purchased the course, and otherwise with 400
  \<^verbatim>\<open>Test is not currently active\<close>. In general \<open>isActive\<close> holds exactly when the test is
  published, \<open>startDate\<close> is unset or not after now, and \<open>endDate\<close> is unset or not before now.
\<close>

theorem future_test_refused:
  assumes "startDate t = Some start" and "sub_now s < start"
    and "findById_test (sub_test s) d = Some t"
    and "user_role (sub_user s) = Student" and "1 \<le> sub_timeTaken s"
    and "findById_course (test_course t) d \<noteq> None"
  shows "\<not> isActive (sub_now s) t
     \<and> submit s d =
         (Inl (if isPublished t \<and> hasPurchasedCourse (sub_user s) (test_course t)
               then Status 400 ''Test is not currently active''
               else Status 403 ''Not authorized to take this test''), d)
     \<and> (\<forall>now' t'. isActive now' t' \<longleftrightarrow>
           isPublished t' \<and> (case startDate t' of None \<Rightarrow> True | Some b \<Rightarrow> b \<le> now')
                         \<and> (case endDate t' of None \<Rightarrow> True | Some e \<Rightarrow> now' \<le> e))"
  using assms
  by (auto simp: isActive_def submit_def submit_load_def requireStudent_def split: option.splits)

text \<open>The theorem at test 101, which opens at 9000, for a submission at 5000.\<close>

theorem future_test_refused_witness:
  "\<not> isActive 5000 test_future
   \<and> submit (sub100 101 [answer_right]) db_tests
       = (Inl (Status 400 ''Test is not currently active''), db_tests)"
  using future_test_refused [of test_future 9000 "sub100 101 [answer_right]" db_tests]
  by (simp add: findById_test_def findById_course_def hasPurchasedCourse_def test_example_defs)

text \<open>
  C7 as stated fails: the student is enrolled in the course of test 101 and has attempts
  left, and the refusal is the 400, not the 403 by which the handler says Forbidden.
\<close>

theorem future_test_counterexample:
  "startDate test_future = Some 9000 \<and> sub_now (sub100 101 [answer_right]) < 9000
   \<and> hasPurchasedCourse student_enrolled (test_course test_future)
   \<and> getAttemptCount 101 3 db_tests < maxAttempts test_future
   \<and> fst (submit (sub100 101 [answer_right]) db_tests)
       = Inl (Status 400 ''Test is not currently active'')
   \<and> fst (submit (sub100 101 [answer_right]) db_tests)
       \<noteq> Inl (Status 403 ''Not authorized to take this test'')"
  by (simp add: submit_defs test_example_defs)

subsection \<open>C8: the total after the questions change\<close>

text \<open>\<^verbatim>\<open>Test.create\<close> runs the hook: the stored total is the sum of the marks.\<close>

lemma Test_create_total:
  "questions t \<noteq> [] \<Longrightarrow>
   totalMarks (fst (Test_create t d)) = sum_list (map marks (questions (fst (Test_create t d))))"
  by (simp add: Test_create_def test_presave_def foldl_marks Let_def)

text \<open>
  C8 fails on the code. PUT /:id writes the new questions with \<^verbatim>\<open>findByIdAndUpdate\<close>, which
  runs no save hook: test 100 had one question of 1 mark; after its questions are replaced
  by one question of 5 marks the stored total is still 1. The same document, created,
  gets the total 5.
\<close>

theorem update_keeps_stale_total:
  "fst (update_test admin2 100 (body_questions [question5]) db_tests)
     = Inr (test100\<lparr>questions := [question5]\<rparr>)
   \<and> findById_test 100 (snd (update_test admin2 100 (body_questions [question5]) db_tests))
     = Some (test100\<lparr>questions := [question5]\<rparr>)
   \<and> totalMarks (test100\<lparr>questions := [question5]\<rparr>) = 1
   \<and> sum_list (map marks (questions (test100\<lparr>questions := [question5]\<rparr>))) = 5
   \<and> totalMarks (fst (Test_create (test100\<lparr>questions := [question5]\<rparr>) db_tests)) = 5"
  by (simp add: update_test_def requireAdmin_def update_body_valid_def update_schema_valid_def
      findById_test_def findById_course_def findByIdAndUpdate_test_def set_field_def
      apply_allowed_def Test_create_def test_presave_def question_cast_def question_valid_def
      trim_def is_space_def js_def Let_def test_example_defs)

subsection \<open>C9: answers to the same question\<close>

text \<open>
  C9. A submission that passes the checks and lists the same correctly answered question
  \<open>k\<close> times is accepted, and its marks are \<open>k\<close> times the question's marks: no answer is
  dropped as a duplicate and no validation error is raised. (The hypotheses say that the
  student may attempt, that the next attempt number is free, and that the total is not 0.)
\<close>

theorem duplicate_answers_all_count:
  assumes load: "submit_load s d = Inr t"
    and quota: "getAttemptCount (test_id t) (user_id (sub_user s)) d < maxAttempts t"
    and free: "\<not> list_ex (\<lambda>x. tr_test x = test_id t \<and> tr_student x = user_id (sub_user s)
                  \<and> attemptNumber x = getAttemptCount (test_id t) (user_id (sub_user s)) d + 1)
                (testResults d)"
    and answers: "sub_answers s = replicate k a"
    and q: "find (\<lambda>q. q_id q = ans_questionId a) (questions t) = Some q"
    and opt: "find (\<lambda>opt. opt_id opt = ans_selectedOption a) (q_options q) = Some opt"
    and correct: "isCorrect opt"
    and tot: "0 < totalMarks t"
  shows "\<exists>resp d'. submit s d = (Inr resp, d')
           \<and> sr_marksObtained resp = k * marks q
           \<and> sr_percentage resp = route_percentage (k * marks q) (totalMarks t)"
proof -
  obtain g' where g: "grade_loop (questions t) (sub_answers s) 0 [] = Inr (0 + k * marks q, g')"
    using grade_loop_replicate[OF q opt correct] answers by metis
  let ?n = "getAttemptCount (test_id t) (user_id (sub_user s)) d"
  let ?g = "\<lparr>gr_attemptCount = ?n, gr_answers = g', gr_marksObtained = k * marks q,
             gr_percentage = route_percentage (k * marks q) (totalMarks t),
             gr_isPassed = (passingMarks t \<le> int (k * marks q))\<rparr>"
  have grade: "submit_grade s t d = Inr ?g"
    using quota g by (simp add: submit_grade_def Let_def)
  have nn: "route_percentage (k * marks q) (totalMarks t) \<noteq> NaN"
    using tot by (rule route_percentage_not_NaN)
  show ?thesis
    using load grade nn free
    by (simp add: submit_def submit_create_def TestResult_create_def Let_def)
qed

text \<open>
  The theorem at test 100, whose total is 1: the right answer listed twice gives the marks
  2 and 200 percent.
\<close>

theorem duplicate_answers_all_count_witness:
  "\<exists>resp d'. submit (sub100 100 (replicate 2 answer_right)) db_tests = (Inr resp, d')
      \<and> sr_marksObtained resp = 2 \<and> sr_percentage resp = Num 200 \<and> totalMarks test100 = 1"
proof -
  have p: "route_percentage 2 1 = Num 200"
    by (simp add: percentage_defs Let_def)
  have l: "submit_load (sub100 100 (replicate 2 answer_right)) db_tests = Inr test100"
    by (simp add: submit_defs test_example_defs)
  show ?thesis
    using duplicate_answers_all_count [of "sub100 100 (replicate 2 answer_right)" db_tests test100
        2 answer_right question1 "\<lparr>opt_id = 11, opt_text = js ''4'', isCorrect = True\<rparr>"] l p
    by (simp add: getAttemptCount_def test_example_defs)
qed

subsection \<open>C10: what a student sees of a test\<close>

lemma getQuestionsForStudent_erase:
  "getQuestionsForStudent (erase_correctness t) = getQuestionsForStudent t"
  by (simp add: getQuestionsForStudent_def erase_correctness_def comp_def)

lemma find_test_erase:
  "find (\<lambda>t. test_id t = i) (map erase_correctness ts)
     = map_option erase_correctness (find (\<lambda>t. test_id t = i) ts)"
  by (induction ts) (simp_all add: erase_correctness_def)

lemma get_test_student:
  "user_role u = Student \<Longrightarrow>
   get_test now u i d = (case findById_test i d of
                           None \<Rightarrow> Inl (Status 404 ''Test not found'')
                         | Some t \<Rightarrow> student_answer now u d t)"
  by (simp add: get_test_def student_answer_def Let_def split: option.splits)

lemma erase_correctness_fields [simp]:
  "test_id (erase_correctness t) = test_id t"
  "title (erase_correctness t) = title t"
  "description (erase_correctness t) = description t"
  "test_course (erase_correctness t) = test_course t"
  "createdBy (erase_correctness t) = createdBy t"
  "subject (erase_correctness t) = subject t"
  "topic (erase_correctness t) = topic t"
  "duration (erase_correctness t) = duration t"
  "totalMarks (erase_correctness t) = totalMarks t"
  "passingMarks (erase_correctness t) = passingMarks t"
  "isPublished (erase_correctness t) = isPublished t"
  "startDate (erase_correctness t) = startDate t"
  "endDate (erase_correctness t) = endDate t"
  "maxAttempts (erase_correctness t) = maxAttempts t"
  "shuffleQuestions (erase_correctness t) = shuffleQuestions t"
  "showResults (erase_correctness t) = showResults t"
  "showCorrectAnswers (erase_correctness t) = showCorrectAnswers t"
  "isAIGenerated (erase_correctness t) = isAIGenerated t"
  "aiPrompt (erase_correctness t) = aiPrompt t"
  by (simp_all add: erase_correctness_def)

lemma student_answer_erase:
  "student_answer now u d (erase_correctness t) = student_answer now u d t"
  by (simp add: student_answer_def getQuestionsForStudent_erase toObject_def isActive_def)

lemma student_answer_cong:
  "courses d1 = courses d2 \<Longrightarrow> testResults d1 = testResults d2 \<Longrightarrow>
   student_answer now u d1 t = student_answer now u d2 t"
  by (simp add: student_answer_def findById_course_def getAttemptCount_def)

text \<open>The questions of the view, field by field.\<close>

lemma student_answer_view:
  assumes "isPublished t" and "hasPurchasedCourse u (test_course t)"
    and "findById_course (test_course t) d \<noteq> None"
  shows "\<exists>data. student_answer now u d t = Inr data
           \<and> td_questions data = Inr (getQuestionsForStudent t)"
  using assms by (simp add: student_answer_def)

lemma getQuestionsForStudent_fields:
  "map qv_id (getQuestionsForStudent t) = map q_id (questions t)"
  "map qv_question (getQuestionsForStudent t) = map q_question (questions t)"
  "map qv_marks (getQuestionsForStudent t) = map marks (questions t)"
  "map qv_difficulty (getQuestionsForStudent t) = map q_difficulty (questions t)"
  "map (\<lambda>v. map ov_id (qv_options v)) (getQuestionsForStudent t)
     = map (\<lambda>q. map opt_id (q_options q)) (questions t)"
  "map (\<lambda>v. map ov_text (qv_options v)) (getQuestionsForStudent t)
     = map (\<lambda>q. map opt_text (q_options q)) (questions t)"
  by (simp_all add: getQuestionsForStudent_def comp_def)

text \<open>
  C10, as amended. Two databases whose tests differ only in correctness data (the
  \<open>isCorrect\<close> flags of options and the explanations of questions) give a student the same
  answer to GET /:id, for every test id and at every time. When the test is found and
  published, its course exists and the student has purchased it, the answer is the test
  with the view of its questions: for each question, in order, its id, text, marks and
  difficulty, and the id and text of each of its options.
\<close>

theorem student_view_hides_correctness:
  assumes student: "user_role u = Student"
    and tests: "map erase_correctness (tests d1) = map erase_correctness (tests d2)"
    and rest: "courses d1 = courses d2" "testResults d1 = testResults d2"
  shows "get_test now u i d1 = get_test now u i d2
     \<and> (\<forall>t. findById_test i d1 = Some t \<and> isPublished t
             \<and> hasPurchasedCourse u (test_course t)
             \<and> findById_course (test_course t) d1 \<noteq> None
          \<longrightarrow> (\<exists>data view. get_test now u i d1 = Inr data \<and> td_questions data = Inr view
                 \<and> map qv_id view = map q_id (questions t)
                 \<and> map qv_question view = map q_question (questions t)
                 \<and> map qv_marks view = map marks (questions t)
                 \<and> map qv_difficulty view = map q_difficulty (questions t)
                 \<and> map (\<lambda>v. map ov_id (qv_options v)) view
                     = map (\<lambda>q. map opt_id (q_options q)) (questions t)
                 \<and> map (\<lambda>v. map ov_text (qv_options v)) view
                     = map (\<lambda>q. map opt_text (q_options q)) (questions t)))"
proof (intro conjI allI impI)
  have e: "map_option erase_correctness (findById_test i d1)
             = map_option erase_correctness (findById_test i d2)"
    unfolding findById_test_def find_test_erase[symmetric] tests ..
  show "get_test now u i d1 = get_test now u i d2"
  proof (cases "findById_test i d1")
    case None
    with e have "findById_test i d2 = None" by simp
    with None student show ?thesis by (simp add: get_test_student)
  next
    case (Some t1)
    with e obtain t2 where t2: "findById_test i d2 = Some t2"
      and eq: "erase_correctness t1 = erase_correctness t2"
      by (cases "findById_test i d2") auto
    have "student_answer now u d1 t1 = student_answer now u d1 (erase_correctness t1)"
      by (simp add: student_answer_erase)
    also have "\<dots> = student_answer now u d2 (erase_correctness t2)"
      unfolding eq by (rule student_answer_cong[OF rest])
    also have "\<dots> = student_answer now u d2 t2"
      by (simp add: student_answer_erase)
    finally show ?thesis using Some t2 student by (simp add: get_test_student)
  qed
next
  fix t
  assume a: "findById_test i d1 = Some t \<and> isPublished t
             \<and> hasPurchasedCourse u (test_course t)
             \<and> findById_course (test_course t) d1 \<noteq> None"
  then obtain data where "student_answer now u d1 t = Inr data"
    and "td_questions data = Inr (getQuestionsForStudent t)"
    using student_answer_view[of t u d1 now] by blast
  with a student have "get_test now u i d1 = Inr data
      \<and> td_questions data = Inr (getQuestionsForStudent t)"
    by (simp add: get_test_student)
  then show "\<exists>data view. get_test now u i d1 = Inr data \<and> td_questions data = Inr view
                 \<and> map qv_id view = map q_id (questions t)
                 \<and> map qv_question view = map q_question (questions t)
                 \<and> map qv_marks view = map marks (questions t)
                 \<and> map qv_difficulty view = map q_difficulty (questions t)
                 \<and> map (\<lambda>v. map ov_id (qv_options v)) view
                     = map (\<lambda>q. map opt_id (q_options q)) (questions t)
                 \<and> map (\<lambda>v. map ov_text (qv_options v)) view
                     = map (\<lambda>q. map opt_text (q_options q)) (questions t)"
    using getQuestionsForStudent_fields[of t] by blast
qed

text \<open>
  The theorem at test 100 and the same test with the other option marked correct and a
  new explanation: the enrolled student gets the same answer, and it carries the
  question with its id, text, marks, difficulty and the ids and texts of its two options.
\<close>

theorem student_view_hides_correctness_witness:
  "test100 \<noteq> test100_flipped
   \<and> get_test 5000 student_enrolled 100 db_tests
       = get_test 5000 student_enrolled 100 (db_tests\<lparr>tests := [test100_flipped, test_future]\<rparr>)
   \<and> (\<exists>data view. get_test 5000 student_enrolled 100 db_tests = Inr data
          \<and> td_questions data = Inr view
          \<and> map qv_id view = [1] \<and> map qv_question view = [js ''2 + 2 = ?'']
          \<and> map qv_marks view = [1] \<and> map qv_difficulty view = [Easy]
          \<and> map (\<lambda>v. map ov_id (qv_options v)) view = [[11, 12]]
          \<and> map (\<lambda>v. map ov_text (qv_options v)) view = [[js ''4'', js ''5'']])"
proof -
  have a: "test100 \<noteq> test100_flipped"
    by (simp add: test_example_defs)
  have f: "findById_test 100 db_tests = Some test100"
    by (simp add: findById_test_def db_tests_def test100_def)
  have g: "isPublished test100" "hasPurchasedCourse student_enrolled (test_course test100)"
    "findById_course (test_course test100) db_tests \<noteq> None"
    by (simp_all add: findById_course_def hasPurchasedCourse_def test_example_defs)
  have q: "questions test100 = [question1]"
    by (simp add: test100_def)
  have q1: "q_id question1 = 1" "q_question question1 = js ''2 + 2 = ?''" "marks question1 = 1"
    "q_difficulty question1 = Easy" "map opt_id (q_options question1) = [11, 12]"
    "map opt_text (q_options question1) = [js ''4'', js ''5'']"
    by (simp_all add: question1_def)
  have h: "user_role student_enrolled = Student"
    "map erase_correctness (tests db_tests)
       = map erase_correctness (tests (db_tests\<lparr>tests := [test100_flipped, test_future]\<rparr>))"
    by (simp_all add: erase_correctness_def test_example_defs)
  have at_test100:
    "get_test 5000 student_enrolled 100 db_tests
       = get_test 5000 student_enrolled 100 (db_tests\<lparr>tests := [test100_flipped, test_future]\<rparr>)
     \<and> (\<forall>t. findById_test 100 db_tests = Some t \<and> isPublished t
             \<and> hasPurchasedCourse student_enrolled (test_course t)
             \<and> findById_course (test_course t) db_tests \<noteq> None
          \<longrightarrow> (\<exists>data view. get_test 5000 student_enrolled 100 db_tests = Inr data
                 \<and> td_questions data = Inr view
                 \<and> map qv_id view = map q_id (questions t)
                 \<and> map qv_question view = map q_question (questions t)
                 \<and> map qv_marks view = map marks (questions t)
                 \<and> map qv_difficulty view = map q_difficulty (questions t)
                 \<and> map (\<lambda>v. map ov_id (qv_options v)) view
                     = map (\<lambda>q. map opt_id (q_options q)) (questions t)
                 \<and> map (\<lambda>v. map ov_text (qv_options v)) view
                     = map (\<lambda>q. map opt_text (q_options q)) (questions t)))"
    by (rule student_view_hides_correctness [OF h]) simp_all
  then have b: "get_test 5000 student_enrolled 100 db_tests
       = get_test 5000 student_enrolled 100 (db_tests\<lparr>tests := [test100_flipped, test_future]\<rparr>)"
    by (rule conjunct1)
  from at_test100 f g
  have "\<exists>data view. get_test 5000 student_enrolled 100 db_tests = Inr data
          \<and> td_questions data = Inr view
          \<and> map qv_id view = map q_id (questions test100)
          \<and> map qv_question view = map q_question (questions test100)
          \<and> map qv_marks view = map marks (questions test100)
          \<and> map qv_difficulty view = map q_difficulty (questions test100)
          \<and> map (\<lambda>v. map ov_id (qv_options v)) view
              = map (\<lambda>q. map opt_id (q_options q)) (questions test100)
          \<and> map (\<lambda>v. map ov_text (qv_options v)) view
              = map (\<lambda>q. map opt_text (q_options q)) (questions test100)"
    by blast
  then have c: "\<exists>data view. get_test 5000 student_enrolled 100 db_tests = Inr data
          \<and> td_questions data = Inr view
          \<and> map qv_id view = [1] \<and> map qv_question view = [js ''2 + 2 = ?'']
          \<and> map qv_marks view = [1] \<and> map qv_difficulty view = [Easy]
          \<and> map (\<lambda>v. map ov_id (qv_options v)) view = [[11, 12]]
          \<and> map (\<lambda>v. map ov_text (qv_options v)) view = [[js ''4'', js ''5'']]"
    by (simp add: q q1)
  from a b c show ?thesis by blast
qed

text \<open>
  C10 as stated fails: a question of the view carries its \<^verbatim>\<open>_id\<close> as well. Test 100 and the
  same test with another id for its question agree in all that the claim lists for a
  question, the text, the marks, the difficulty and the id and text of each option, and
  in everything else of the test; the answers to the student differ.
\<close>

theorem renumbered_question_counterexample:
  "map claimed_fields (questions test100_renumbered) = map claimed_fields (questions test100)
   \<and> test100_renumbered = test100\<lparr>questions := questions test100_renumbered\<rparr>
   \<and> get_test 5000 student_enrolled 100 (db_tests\<lparr>tests := [test100_renumbered, test_future]\<rparr>)
       \<noteq> get_test 5000 student_enrolled 100 db_tests"
  by (simp add: claimed_fields_def get_test_def findById_test_def findById_course_def
      hasPurchasedCourse_def getQuestionsForStudent_def toObject_def Let_def test_example_defs)

end
